theory Spec2Isabelle
  imports Complex_Main
begin

section \<open>JavaScript numbers and optional values\<close>

text \<open>
  A JavaScript number is a finite value, NaN or one of the two infinities. The finite
  doubles are rationals, so a finite value is carried as a \<open>real\<close>; every statement below
  that holds for all reals holds for all finite doubles. A coordinate that may be
  \<open>undefined\<close> or \<open>null\<close> (the case \<open>typeof v !== 'number'\<close>) is a \<open>jsnum option\<close>
  whose \<open>None\<close> is the missing value.
\<close>

datatype jsnum = Fin real | NaN | PosInf | NegInf

type_synonym jsval = "jsnum option"

fun isNaN :: "jsnum \<Rightarrow> bool" where
  "isNaN NaN = True"
| "isNaN (Fin r) = False"
| "isNaN PosInf = False"
| "isNaN NegInf = False"

fun isFinite :: "jsnum \<Rightarrow> bool" where
  "isFinite (Fin r) = True"
| "isFinite NaN = False"
| "isFinite PosInf = False"
| "isFinite NegInf = False"

text \<open>\<open>typeof v === 'number' && !isNaN(v)\<close>, the validity test the canvas uses everywhere.\<close>

fun is_valid_number :: "jsval \<Rightarrow> bool" where
  "is_valid_number None = False"
| "is_valid_number (Some n) = (\<not> isNaN n)"

text \<open>\<open>Math.round\<close>: the nearest integer, ties towards plus infinity; NaN and the
  infinities are returned as they are, and a missing argument gives NaN.\<close>

fun Math_round :: "jsval \<Rightarrow> jsnum" where
  "Math_round None = NaN"
| "Math_round (Some (Fin r)) = Fin (of_int \<lfloor>r + 1 / 2\<rfloor>)"
| "Math_round (Some NaN) = NaN"
| "Math_round (Some PosInf) = PosInf"
| "Math_round (Some NegInf) = NegInf"

text \<open>A flag that may be unset: \<open>undefined\<close> is falsy.\<close>

fun truthy :: "bool option \<Rightarrow> bool" where
  "truthy None = False"
| "truthy (Some b) = b"

section \<open>Domain entities\<close>

record DBTable =
  t_id :: string
  t_x :: jsval
  t_y :: jsval
  t_width :: jsval
  t_schema :: "string option"

record Area =
  a_id :: string
  a_x :: jsval
  a_y :: jsval
  a_width :: jsval
  a_height :: jsval

record DBRelationship =
  r_id :: string
  sourceTableId :: string
  sourceFieldId :: string
  targetTableId :: string
  targetFieldId :: string

record DBDependency =
  d_id :: string
  d_tableId :: string
  dependentTableId :: string

section \<open>Visual nodes\<close>

record XYPosition =
  pos_x :: jsval
  pos_y :: jsval

record Dimensions =
  dim_width :: jsval
  dim_height :: jsval

datatype NodeKind = TableKind | AreaKind

datatype NodeData =
    TableData DBTable bool "bool option"
  | AreaData Area

record Node =
  n_id :: string
  n_type :: NodeKind
  n_position :: "XYPosition option"
  n_data :: NodeData
  n_width :: jsval
  n_height :: jsval
  n_measured :: "Dimensions option"
  n_draggable :: "bool option"
  n_hidden :: "bool option"
  n_selected :: "bool option"
  n_dragging :: "bool option"
  n_resizing :: "bool option"
  n_zIndex :: "int option"

text \<open>\<open>v ?? 0\<close> on a coordinate.\<close>

fun or_zero :: "jsval \<Rightarrow> jsnum" where
  "or_zero None = Fin 0"
| "or_zero (Some n) = n"

text \<open>\<open>typeof v === 'number' && !isNaN(v) ? v : 0\<close>.\<close>

fun valid_or_zero :: "jsval \<Rightarrow> jsnum" where
  "valid_or_zero None = Fin 0"
| "valid_or_zero (Some n) = (if \<not> isNaN n then n else Fin 0)"

text \<open>
  \<open>tableToTableNode\<close>. The schema filter \<open>shouldShowTablesBySchemaFilter\<close> and the constant
  \<open>MIN_TABLE_SIZE\<close> are imported from other modules and are parameters here.
\<close>

definition tableToTableNode ::
  "jsnum \<Rightarrow> (DBTable \<Rightarrow> bool) \<Rightarrow> DBTable \<Rightarrow> Node" where
  "tableToTableNode MIN_TABLE_SIZE shouldShow table =
     \<lparr> n_id = t_id table,
       n_type = TableKind,
       n_position = Some \<lparr> pos_x = Some (valid_or_zero (t_x table)),
                           pos_y = Some (valid_or_zero (t_y table)) \<rparr>,
       n_data = TableData table False None,
       n_width = Some (case t_width table of Some w \<Rightarrow> w | None \<Rightarrow> MIN_TABLE_SIZE),
       n_height = None,
       n_measured = None,
       n_draggable = Some True,
       n_hidden = Some (\<not> shouldShow table),
       n_selected = None,
       n_dragging = None,
       n_resizing = None,
       n_zIndex = None \<rparr>"

text \<open>\<open>areaToAreaNode\<close>: the area's coordinates are copied as they are.\<close>

definition areaToAreaNode :: "Area \<Rightarrow> Node" where
  "areaToAreaNode area =
     \<lparr> n_id = a_id area,
       n_type = AreaKind,
       n_position = Some \<lparr> pos_x = a_x area, pos_y = a_y area \<rparr>,
       n_data = AreaData area,
       n_width = a_width area,
       n_height = a_height area,
       n_measured = None,
       n_draggable = None,
       n_hidden = None,
       n_selected = None,
       n_dragging = None,
       n_resizing = None,
       n_zIndex = Some (-10) \<rparr>"

text \<open>The coordinates of a node's position, read the way \<open>node?.position?.x\<close> reads them.\<close>

definition node_x :: "Node \<Rightarrow> jsval" where
  "node_x n = (case n_position n of None \<Rightarrow> None | Some p \<Rightarrow> pos_x p)"

definition node_y :: "Node \<Rightarrow> jsval" where
  "node_y n = (case n_position n of None \<Rightarrow> None | Some p \<Rightarrow> pos_y p)"

section \<open>Node changes and the calls the canvas makes\<close>

text \<open>
  The change records of the rendering surface. A position change carries an optional
  position and an optional dragging flag; the sanitizing pass adds the key \<open>measured\<close>.
\<close>

datatype NodeChange =
    PositionChange string "XYPosition option" "bool option" "Dimensions option"
  | DimensionsChange string "Dimensions option" "bool option"
  | RemoveChange string
  | SelectChange string bool
  | AddChange Node
  | ReplaceChange string Node

fun is_position :: "NodeChange \<Rightarrow> bool" where
  "is_position (PositionChange i p d m) = True"
| "is_position c = False"

fun is_dimensions :: "NodeChange \<Rightarrow> bool" where
  "is_dimensions (DimensionsChange i d r) = True"
| "is_dimensions c = False"

fun is_remove :: "NodeChange \<Rightarrow> bool" where
  "is_remove (RemoveChange i) = True"
| "is_remove c = False"

fun change_id :: "NodeChange \<Rightarrow> string" where
  "change_id (PositionChange i p d m) = i"
| "change_id (DimensionsChange i d r) = i"
| "change_id (RemoveChange i) = i"
| "change_id (SelectChange i b) = i"
| "change_id (AddChange n) = n_id n"
| "change_id (ReplaceChange i n) = i"

fun change_dragging :: "NodeChange \<Rightarrow> bool option" where
  "change_dragging (PositionChange i p d m) = d"
| "change_dragging c = None"

fun change_resizing :: "NodeChange \<Rightarrow> bool option" where
  "change_resizing (DimensionsChange i d r) = r"
| "change_resizing c = None"

fun change_position :: "NodeChange \<Rightarrow> XYPosition option" where
  "change_position (PositionChange i p d m) = p"
| "change_position c = None"

section \<open>Edges\<close>

datatype EdgeKind = RelationshipEdge | DependencyEdge

record EdgeData =
  ed_relationship :: "DBRelationship option"
  ed_dependency :: "DBDependency option"
  ed_highlighted :: "bool option"

record Edge =
  e_id :: string
  e_source :: string
  e_target :: string
  e_sourceHandle :: "string option"
  e_targetHandle :: "string option"
  e_type :: EdgeKind
  e_data :: "EdgeData option"
  e_hidden :: "bool option"
  e_selected :: "bool option"
  e_animated :: "bool option"
  e_zIndex :: "int option"

datatype EdgeChange =
    EdgeRemove string
  | EdgeSelect string bool
  | EdgeAdd Edge
  | EdgeReplace string Edge

fun is_edge_remove :: "EdgeChange \<Rightarrow> bool" where
  "is_edge_remove (EdgeRemove i) = True"
| "is_edge_remove c = False"

fun edge_change_id :: "EdgeChange \<Rightarrow> string" where
  "edge_change_id (EdgeRemove i) = i"
| "edge_change_id (EdgeSelect i b) = i"
| "edge_change_id (EdgeAdd e) = e_id e"
| "edge_change_id (EdgeReplace i e) = i"

text \<open>
  Every call a handler makes on the domain store, on the rendering surface or on the
  notification surface is recorded, in order, as one \<open>Effect\<close>. The updater passed to
  \<open>updateTablesState\<close> is a closure over the position changes and the remove changes; the
  effect keeps both and \<open>tables_updater\<close> below is the closure's body.
\<close>

datatype Effect =
    UpdateTablesState "NodeChange list" "NodeChange list"
  | UpdateOverlappingGraphOnChangesDebounced "NodeChange list" "NodeChange list"
  | UpdateArea string "(string \<times> jsval) list"
  | RemoveArea string
  | OnNodesChange "NodeChange list"
  | RemoveRelationships "string option list"
  | RemoveDependencies "string option list"
  | OnEdgesChange "EdgeChange list"
  | CreateDependency string string
  | CreateRelationship string string string string
  | Toast string string string

fun is_UpdateTablesState :: "Effect \<Rightarrow> bool" where
  "is_UpdateTablesState (UpdateTablesState p r) = True"
| "is_UpdateTablesState e = False"

fun is_overlap_trigger :: "Effect \<Rightarrow> bool" where
  "is_overlap_trigger (UpdateOverlappingGraphOnChangesDebounced p s) = True"
| "is_overlap_trigger e = False"

fun is_removal_effect :: "Effect \<Rightarrow> bool" where
  "is_removal_effect (RemoveArea i) = True"
| "is_removal_effect (RemoveRelationships is) = True"
| "is_removal_effect (RemoveDependencies is) = True"
| "is_removal_effect (UpdateTablesState p r) = (r \<noteq> [])"
| "is_removal_effect e = False"

section \<open>The change reconciliation layer\<close>

text \<open>\<open>findRelevantNodesChanges\<close>; \<open>getNode\<close> is the rendering surface's lookup.\<close>

definition relevantChanges ::
  "(string \<Rightarrow> Node option) \<Rightarrow> NodeChange list \<Rightarrow> NodeKind \<Rightarrow> NodeChange list" where
  "relevantChanges getNode changes type =
     filter (\<lambda>change.
       if is_position change \<or> is_dimensions change \<or> is_remove change then
         (case getNode (change_id change) of
            None \<Rightarrow> False
          | Some node \<Rightarrow> if n_type node \<noteq> type then False else True)
       else False) changes"

definition positionChanges_of ::
  "(string \<Rightarrow> Node option) \<Rightarrow> NodeChange list \<Rightarrow> NodeKind \<Rightarrow> NodeChange list" where
  "positionChanges_of getNode changes type =
     filter (\<lambda>change. is_position change \<and> \<not> truthy (change_dragging change))
       (relevantChanges getNode changes type)"

definition removeChanges_of ::
  "(string \<Rightarrow> Node option) \<Rightarrow> NodeChange list \<Rightarrow> NodeKind \<Rightarrow> NodeChange list" where
  "removeChanges_of getNode changes type =
     filter is_remove (relevantChanges getNode changes type)"

definition sizeChanges_of ::
  "(string \<Rightarrow> Node option) \<Rightarrow> NodeChange list \<Rightarrow> NodeKind \<Rightarrow> NodeChange list" where
  "sizeChanges_of getNode changes type =
     filter (\<lambda>change. is_dimensions change \<and> truthy (change_resizing change))
       (relevantChanges getNode changes type)"

definition findRelevantNodesChanges ::
  "(string \<Rightarrow> Node option) \<Rightarrow> NodeChange list \<Rightarrow> NodeKind
     \<Rightarrow> NodeChange list \<times> NodeChange list \<times> NodeChange list" where
  "findRelevantNodesChanges getNode changes type =
     (positionChanges_of getNode changes type,
      removeChanges_of getNode changes type,
      sizeChanges_of getNode changes type)"

text \<open>
  The sanitizing pass at the head of \<open>onNodesChangeHandler\<close>: a coordinate of the payload
  that is a number other than NaN is kept, any other is replaced by
  \<open>node?.position?.x ?? 0\<close>.
\<close>

fun sanitize_coord :: "jsval \<Rightarrow> jsval \<Rightarrow> jsnum" where
  "sanitize_coord None prior = or_zero prior"
| "sanitize_coord (Some n) prior = (if \<not> isNaN n then n else or_zero prior)"

fun sanitize_change :: "(string \<Rightarrow> Node option) \<Rightarrow> NodeChange \<Rightarrow> NodeChange" where
  "sanitize_change getNode (PositionChange i (Some p) d m) =
     (let node = getNode i;
          x = sanitize_coord (pos_x p) (case node of None \<Rightarrow> None | Some nd \<Rightarrow> node_x nd);
          y = sanitize_coord (pos_y p) (case node of None \<Rightarrow> None | Some nd \<Rightarrow> node_y nd)
      in PositionChange i (Some \<lparr> pos_x = Some x, pos_y = Some y \<rparr>) d
           (case node of None \<Rightarrow> None | Some nd \<Rightarrow> n_measured nd))"
| "sanitize_change getNode change = change"

text \<open>The body of the updater given to \<open>updateTablesState\<close>.\<close>

definition table_updates :: "NodeChange list \<Rightarrow> string \<Rightarrow> (jsnum \<times> jsnum) option" where
  "table_updates positionChanges =
     fold (\<lambda>change updates.
             case change_position change of
               Some p \<Rightarrow> updates(change_id change \<mapsto> (Math_round (pos_x p), Math_round (pos_y p)))
             | None \<Rightarrow> updates)
       positionChanges Map.empty"

definition tables_updater ::
  "NodeChange list \<Rightarrow> NodeChange list \<Rightarrow> DBTable list \<Rightarrow> DBTable list" where
  "tables_updater positionChanges removeChanges currentTables =
     filter (\<lambda>table. \<not> list_ex (\<lambda>change. change_id change = t_id table) removeChanges)
       (map (\<lambda>table.
               case table_updates positionChanges (t_id table) of
                 Some (x, y) \<Rightarrow> table\<lparr> t_x := Some x, t_y := Some y \<rparr>
               | None \<Rightarrow> table)
          currentTables)"

text \<open>The table half of \<open>onNodesChangeHandler\<close>.\<close>

definition table_effects :: "(string \<Rightarrow> Node option) \<Rightarrow> NodeChange list \<Rightarrow> Effect list" where
  "table_effects getNode changesToApply =
     (case findRelevantNodesChanges getNode changesToApply TableKind of
        (positionChanges, removeChanges, sizeChanges) \<Rightarrow>
          if length positionChanges > 0 \<or> length removeChanges > 0 \<or> length sizeChanges > 0 then
            (let isDragging =
                   list_ex (\<lambda>change. if is_position change then truthy (change_dragging change)
                                      else False) positionChanges
             in if \<not> isDragging then
                  [UpdateTablesState positionChanges removeChanges,
                   UpdateOverlappingGraphOnChangesDebounced positionChanges sizeChanges]
                else [])
          else [])"

text \<open>The area half: each position or size change is forwarded on its own.\<close>

fun area_updateData :: "NodeChange \<Rightarrow> (string \<times> jsval) list" where
  "area_updateData (PositionChange i p d m) =
     [(''x'', case p of None \<Rightarrow> None | Some q \<Rightarrow> pos_x q),
      (''y'', case p of None \<Rightarrow> None | Some q \<Rightarrow> pos_y q)]"
| "area_updateData (DimensionsChange i dm r) =
     [(''width'', case dm of None \<Rightarrow> None | Some q \<Rightarrow> dim_width q),
      (''height'', case dm of None \<Rightarrow> None | Some q \<Rightarrow> dim_height q)]"
| "area_updateData c = []"

definition area_effects :: "(string \<Rightarrow> Node option) \<Rightarrow> NodeChange list \<Rightarrow> Effect list" where
  "area_effects getNode changesToApply =
     (case findRelevantNodesChanges getNode changesToApply AreaKind of
        (areaPositionChanges, areaRemoveChanges, areaSizeChanges) \<Rightarrow>
          if length areaPositionChanges > 0 \<or> length areaRemoveChanges > 0
               \<or> length areaSizeChanges > 0 then
            concat (map (\<lambda>change.
                           let updateData = area_updateData change
                           in if length updateData > 0
                              then [UpdateArea (change_id change) updateData] else [])
                      (areaPositionChanges @ areaSizeChanges))
            @ map (\<lambda>change. RemoveArea (change_id change)) areaRemoveChanges
          else [])"

definition changesToApply_of ::
  "bool \<Rightarrow> (string \<Rightarrow> Node option) \<Rightarrow> NodeChange list \<Rightarrow> NodeChange list" where
  "changesToApply_of readonly getNode changes =
     (let changesToApply = map (sanitize_change getNode) changes
      in if readonly then filter (\<lambda>change. \<not> is_remove change) changesToApply
         else changesToApply)"

definition onNodesChangeHandler ::
  "bool \<Rightarrow> (string \<Rightarrow> Node option) \<Rightarrow> NodeChange list \<Rightarrow> Effect list" where
  "onNodesChangeHandler readonly getNode changes =
     (let changesToApply = changesToApply_of readonly getNode changes
      in table_effects getNode changesToApply
         @ area_effects getNode changesToApply
         @ [OnNodesChange changesToApply])"

text \<open>\<open>onEdgesChangeHandler\<close>; \<open>getEdge\<close> is the rendering surface's lookup.\<close>

definition onEdgesChangeHandler ::
  "bool \<Rightarrow> (string \<Rightarrow> Edge option) \<Rightarrow> EdgeChange list \<Rightarrow> Effect list" where
  "onEdgesChangeHandler readonly getEdge changes =
     (let changesToApply =
            (if readonly then filter (\<lambda>change. \<not> is_edge_remove change) changes else changes);
          removeChanges = filter is_edge_remove changesToApply;
          edgesToRemove = List.map_filter (\<lambda>change. getEdge (edge_change_id change)) removeChanges;
          relationshipsToRemove =
            map (\<lambda>edge. case e_data edge of None \<Rightarrow> None
                         | Some d \<Rightarrow> map_option r_id (ed_relationship d))
              (filter (\<lambda>edge. e_type edge = RelationshipEdge) edgesToRemove);
          dependenciesToRemove =
            map (\<lambda>edge. case e_data edge of None \<Rightarrow> None
                         | Some d \<Rightarrow> map_option d_id (ed_dependency d))
              (filter (\<lambda>edge. e_type edge = DependencyEdge) edgesToRemove)
      in (if length relationshipsToRemove > 0 then [RemoveRelationships relationshipsToRemove]
          else [])
         @ (if length dependenciesToRemove > 0 then [RemoveDependencies dependenciesToRemove]
            else [])
         @ [OnEdgesChange changesToApply])"

section \<open>Edge projection\<close>

text \<open>
  The handle prefixes are constants of the table-node modules; they are parameters here.
\<close>

record HandlePrefixes =
  LEFT_HANDLE_ID_PREFIX :: string
  TARGET_ID_PREFIX :: string
  TOP_SOURCE_HANDLE_ID_PREFIX :: string
  BOTTOM_SOURCE_HANDLE_ID_PREFIX :: string
  TARGET_DEP_PREFIX :: string

text \<open>The decimal text a template literal gives a counter; a key that holds no counter
  reads a value that is not a number, and its increment is NaN.\<close>

definition digit_char :: "nat \<Rightarrow> char" where
  "digit_char n = ''0123456789'' ! (n mod 10)"

function string_of_nat :: "nat \<Rightarrow> string" where
  "string_of_nat n =
     (if n < 10 then [digit_char n] else string_of_nat (n div 10) @ [digit_char (n mod 10)])"
  by pat_completeness auto
termination
  by (relation "measure (\<lambda>n. n)") auto

declare string_of_nat.simps [simp del]

fun index_string :: "nat option \<Rightarrow> string" where
  "index_string None = ''NaN''"
| "index_string (Some i) = string_of_nat i"

text \<open>The key of the relationship counters is the template
  \<open>`${relationship.targetTableId}${relationship.targetFieldId}`\<close>: the two ids joined with
  nothing in between.\<close>

definition target_key :: "DBRelationship \<Rightarrow> string" where
  "target_key relationship = targetTableId relationship @ targetFieldId relationship"

text \<open>
  The counters are the own keys of a plain object \<open>{}\<close>. Assigning a number to the key
  \<open>__proto__\<close> creates no own key (the prototype setter ignores a number), and reading that
  key gives the prototype object, whose increment is NaN: this one key never holds a
  counter, and every index read from it is NaN.
\<close>

definition object_set ::
  "(string \<Rightarrow> nat option) \<Rightarrow> string \<Rightarrow> nat \<Rightarrow> (string \<Rightarrow> nat option)" where
  "object_set obj key v = (if key = ''__proto__'' then obj else obj(key \<mapsto> v))"

definition targetIndexes_init :: "DBRelationship list \<Rightarrow> string \<Rightarrow> nat option" where
  "targetIndexes_init relationships =
     fold (\<lambda>relationship acc. object_set acc (target_key relationship) 0)
       relationships Map.empty"

definition targetDepIndexes_init :: "DBDependency list \<Rightarrow> string \<Rightarrow> nat option" where
  "targetDepIndexes_init dependencies =
     fold (\<lambda>dep acc. object_set acc (d_tableId dep) 0) dependencies Map.empty"

text \<open>The two \<open>map\<close> calls read and then increment a counter for each item, in list order;
  the counters are threaded through the recursion. A key that holds no counter (only
  \<open>__proto__\<close>, since every other key was initialised) reads NaN and stays without one.\<close>

fun relationship_edges ::
  "HandlePrefixes \<Rightarrow> (string \<Rightarrow> nat option) \<Rightarrow> DBRelationship list \<Rightarrow> Edge list" where
  "relationship_edges P targetIndexes [] = []"
| "relationship_edges P targetIndexes (relationship # rest) =
     \<lparr> e_id = r_id relationship,
       e_source = sourceTableId relationship,
       e_target = targetTableId relationship,
       e_sourceHandle = Some (LEFT_HANDLE_ID_PREFIX P @ sourceFieldId relationship),
       e_targetHandle =
         Some (TARGET_ID_PREFIX P @ index_string (targetIndexes (target_key relationship))
               @ ''_'' @ targetFieldId relationship),
       e_type = RelationshipEdge,
       e_data = Some \<lparr> ed_relationship = Some relationship, ed_dependency = None,
                       ed_highlighted = None \<rparr>,
       e_hidden = None,
       e_selected = None,
       e_animated = None,
       e_zIndex = None \<rparr>
     # relationship_edges P
         (targetIndexes(target_key relationship :=
            map_option Suc (targetIndexes (target_key relationship)))) rest"

fun dependency_edges ::
  "HandlePrefixes \<Rightarrow> bool \<Rightarrow> (string \<Rightarrow> nat option) \<Rightarrow> DBDependency list \<Rightarrow> Edge list" where
  "dependency_edges P hid targetDepIndexes [] = []"
| "dependency_edges P hid targetDepIndexes (dep # rest) =
     \<lparr> e_id = d_id dep,
       e_source = dependentTableId dep,
       e_target = d_tableId dep,
       e_sourceHandle = Some (TOP_SOURCE_HANDLE_ID_PREFIX P @ dependentTableId dep),
       e_targetHandle =
         Some (TARGET_DEP_PREFIX P @ index_string (targetDepIndexes (d_tableId dep))
               @ ''_'' @ d_tableId dep),
       e_type = DependencyEdge,
       e_data = Some \<lparr> ed_relationship = None, ed_dependency = Some dep,
                       ed_highlighted = None \<rparr>,
       e_hidden = Some hid,
       e_selected = None,
       e_animated = None,
       e_zIndex = None \<rparr>
     # dependency_edges P hid
         (targetDepIndexes(d_tableId dep := map_option Suc (targetDepIndexes (d_tableId dep))))
         rest"

text \<open>The edges projection effect. \<open>databaseType\<close> is compared with the member
  \<open>DatabaseType.CLICKHOUSE\<close> of an enumeration declared in another module: both are
  parameters of one type.\<close>

definition edges_projection ::
  "HandlePrefixes \<Rightarrow> bool \<Rightarrow> 'db \<Rightarrow> 'db \<Rightarrow> DBRelationship list \<Rightarrow> DBDependency list
     \<Rightarrow> Edge list" where
  "edges_projection P showDependenciesOnCanvas databaseType CLICKHOUSE relationships dependencies =
     relationship_edges P (targetIndexes_init relationships) relationships
     @ dependency_edges P (\<not> showDependenciesOnCanvas \<and> databaseType \<noteq> CLICKHOUSE)
         (targetDepIndexes_init dependencies) dependencies"

section \<open>Selection synchronizer\<close>

definition selectedNodesIds :: "Node list \<Rightarrow> string list" where
  "selectedNodesIds nodes = map n_id (filter (\<lambda>node. truthy (n_selected node)) nodes)"

definition selectedEdgesIds :: "Edge list \<Rightarrow> string list" where
  "selectedEdgesIds edges = map e_id (filter (\<lambda>edge. truthy (e_selected edge)) edges)"

definition data_or_empty :: "EdgeData option \<Rightarrow> EdgeData" where
  "data_or_empty d =
     (case d of Some v \<Rightarrow> v
      | None \<Rightarrow> \<lparr> ed_relationship = None, ed_dependency = None, ed_highlighted = None \<rparr>)"

text \<open>The edge highlight effect: \<open>storeEdges\<close> is what \<open>getEdges()\<close> returns, \<open>edges\<close> the
  state the updater is applied to.\<close>

definition highlight_edges ::
  "Edge list \<Rightarrow> string list \<Rightarrow> string list \<Rightarrow> Edge list \<Rightarrow> Edge list" where
  "highlight_edges storeEdges selectedTableIds selectedRelationshipIds edges =
     (let tablesSelectedEdges =
            map e_id (filter (\<lambda>edge. e_source edge \<in> set selectedTableIds
                                       \<or> e_target edge \<in> set selectedTableIds) storeEdges);
          allSelectedEdges = tablesSelectedEdges @ selectedRelationshipIds
      in map (\<lambda>edge.
                let selected = (e_id edge \<in> set allSelectedEdges)
                in if e_type edge = DependencyEdge then
                     edge\<lparr> e_data := Some ((data_or_empty (e_data edge))
                                             \<lparr> ed_highlighted := Some selected \<rparr>),
                           e_animated := Some selected,
                           e_zIndex := Some (if selected then 1 else 0) \<rparr>
                   else
                     edge\<lparr> e_data := Some ((data_or_empty (e_data edge))
                                             \<lparr> ed_highlighted := Some selected \<rparr>),
                           e_animated := Some selected,
                           e_zIndex := Some (if selected then 1 else 0) \<rparr>)
           edges)"

definition edge_highlighted :: "Edge \<Rightarrow> bool" where
  "edge_highlighted edge =
     (case e_data edge of None \<Rightarrow> False | Some d \<Rightarrow> truthy (ed_highlighted d))"

section \<open>Domain-driven re-projection of nodes\<close>

definition position_is_valid :: "Node \<Rightarrow> bool" where
  "position_is_valid existingNode =
     (case n_position existingNode of
        None \<Rightarrow> False
      | Some p \<Rightarrow> is_valid_number (pos_x p) \<and> is_valid_number (pos_y p))"

definition merge_existing :: "Node \<Rightarrow> Node \<Rightarrow> Node" where
  "merge_existing existingNode node0 =
     (let node1 = (if position_is_valid existingNode
                   then node0\<lparr> n_position := n_position existingNode \<rparr> else node0);
          node2 = (if truthy (n_dragging existingNode) \<or> truthy (n_resizing existingNode)
                   then node1\<lparr> n_measured := n_measured existingNode \<rparr> else node1);
          node3 = node2\<lparr> n_selected := n_selected existingNode \<rparr>;
          node4 = (if truthy (n_dragging existingNode)
                   then node3\<lparr> n_dragging := Some True \<rparr> else node3);
          node5 = (if truthy (n_resizing existingNode)
                   then node4\<lparr> n_resizing := Some True \<rparr> else node4)
      in node5)"

definition reproject_table ::
  "jsnum \<Rightarrow> (DBTable \<Rightarrow> bool) \<Rightarrow> (string \<Rightarrow> string list option) \<Rightarrow> bool \<Rightarrow> Node list
     \<Rightarrow> DBTable \<Rightarrow> Node" where
  "reproject_table MIN_TABLE_SIZE shouldShow graph highlightOverlappingTables currentNodes table =
     (let isOverlapping =
            (length (case graph (t_id table) of Some l \<Rightarrow> l | None \<Rightarrow> []) > 0);
          node = tableToTableNode MIN_TABLE_SIZE shouldShow table;
          existingNode = find (\<lambda>n. n_id n = t_id table) currentNodes;
          node' = (case existingNode of None \<Rightarrow> node | Some ex \<Rightarrow> merge_existing ex node)
      in node'\<lparr> n_data := TableData table isOverlapping (Some highlightOverlappingTables) \<rparr>)"

definition nodes_reprojection ::
  "jsnum \<Rightarrow> (DBTable \<Rightarrow> bool) \<Rightarrow> (string \<Rightarrow> string list option) \<Rightarrow> bool
     \<Rightarrow> DBTable list \<Rightarrow> Area list \<Rightarrow> Node list \<Rightarrow> Node list" where
  "nodes_reprojection MIN_TABLE_SIZE shouldShow graph highlightOverlappingTables tables areas
       currentNodes =
     map (reproject_table MIN_TABLE_SIZE shouldShow graph highlightOverlappingTables currentNodes)
       tables
     @ map areaToAreaNode areas"

section \<open>Connect gestures\<close>

record DataType =
  dt_id :: string
  dt_name :: string

record DBField =
  f_id :: string
  f_name :: string
  f_type :: DataType
  f_unique :: bool
  f_primaryKey :: bool
  f_nullable :: bool
  f_characterMaximumLength :: "string option"
  f_comments :: "string option"

record AddEdgeParams =
  p_source :: string
  p_target :: string
  p_sourceHandle :: "string option"
  p_targetHandle :: "string option"

definition startsWith :: "string \<Rightarrow> string \<Rightarrow> bool" where
  "startsWith s pre = (take (length pre) s = pre)"

text \<open>\<open>handle?.split('_')?.pop() ?? ''\<close>: what follows the last underscore.\<close>

definition last_segment :: "string option \<Rightarrow> string" where
  "last_segment handle =
     (case handle of None \<Rightarrow> [] | Some h \<Rightarrow> rev (takeWhile (\<lambda>c. c \<noteq> CHR ''_'') (rev h)))"

definition is_dependency_gesture :: "HandlePrefixes \<Rightarrow> AddEdgeParams \<Rightarrow> bool" where
  "is_dependency_gesture P params =
     (case p_sourceHandle params of
        None \<Rightarrow> False
      | Some h \<Rightarrow> startsWith h (TOP_SOURCE_HANDLE_ID_PREFIX P)
                  \<or> startsWith h (BOTTOM_SOURCE_HANDLE_ID_PREFIX P))"

text \<open>\<open>onConnectHandler\<close>. The field lookup \<open>getField\<close> of the domain store and the dialect's
  rule \<open>areFieldTypesCompatible\<close> are parameters.\<close>

definition onConnectHandler ::
  "HandlePrefixes \<Rightarrow> (string \<Rightarrow> string \<Rightarrow> DBField option)
     \<Rightarrow> (DataType \<Rightarrow> DataType \<Rightarrow> 'db \<Rightarrow> bool) \<Rightarrow> 'db \<Rightarrow> AddEdgeParams \<Rightarrow> Effect list" where
  "onConnectHandler P getField areFieldTypesCompatible databaseType params =
     (if is_dependency_gesture P params then
        [CreateDependency (p_target params) (p_source params)]
      else
        (let sourceTableId = p_source params;
             targetTableId = p_target params;
             sourceFieldId = last_segment (p_sourceHandle params);
             targetFieldId = last_segment (p_targetHandle params)
         in case getField sourceTableId sourceFieldId of
              None \<Rightarrow> []
            | Some sourceField \<Rightarrow>
                (case getField targetTableId targetFieldId of
                   None \<Rightarrow> []
                 | Some targetField \<Rightarrow>
                     if \<not> areFieldTypesCompatible (f_type sourceField) (f_type targetField)
                            databaseType
                     then [Toast ''Field types are not compatible'' ''destructive''
                             ''Relationships can only be created between compatible field types'']
                     else [CreateRelationship sourceTableId targetTableId sourceFieldId
                             targetFieldId])))"

section \<open>The field editor\<close>

text \<open>A \<open>Partial<DBField>\<close>: every attribute may be absent.\<close>

record PartialDBField =
  pf_name :: "string option"
  pf_type :: "DataType option"
  pf_unique :: "bool option"
  pf_primaryKey :: "bool option"
  pf_nullable :: "bool option"
  pf_characterMaximumLength :: "string option"
  pf_comments :: "string option"

definition empty_partial :: PartialDBField where
  "empty_partial =
     \<lparr> pf_name = None, pf_type = None, pf_unique = None, pf_primaryKey = None,
       pf_nullable = None, pf_characterMaximumLength = None, pf_comments = None \<rparr>"

text \<open>What a control of \<open>TableField\<close> does: calls of the debounced writer
  \<open>debouncedUpdateRef.current\<close> and of \<open>setLocalName\<close>.\<close>

datatype FieldEffect =
    DebouncedUpdate PartialDBField
  | SetLocalName string

definition handleFieldNameChange :: "string \<Rightarrow> FieldEffect list" where
  "handleFieldNameChange newValue =
     [SetLocalName newValue, DebouncedUpdate (empty_partial\<lparr> pf_name := Some newValue \<rparr>)]"

text \<open>The \<open>onPressedChange\<close> callbacks of the nullable toggle and of the primary-key toggle.\<close>

definition nullable_onPressedChange :: "bool \<Rightarrow> FieldEffect list" where
  "nullable_onPressedChange v = [DebouncedUpdate (empty_partial\<lparr> pf_nullable := Some v \<rparr>)]"

definition primaryKey_onPressedChange :: "bool \<Rightarrow> FieldEffect list" where
  "primaryKey_onPressedChange v =
     [DebouncedUpdate (empty_partial\<lparr> pf_unique := Some v, pf_primaryKey := Some v \<rparr>)]"

section \<open>Sample data\<close>

text \<open>Concrete tables, nodes, edges, stores and handle prefixes on which the properties
  below are evaluated.\<close>

definition show_every_table :: "DBTable \<Rightarrow> bool" where
  "show_every_table table = True"

definition table_at :: "jsval \<Rightarrow> jsval \<Rightarrow> DBTable" where
  "table_at vx vy = \<lparr> t_id = ''t1'', t_x = vx, t_y = vy, t_width = None, t_schema = None \<rparr>"

definition area_at :: "jsval \<Rightarrow> jsval \<Rightarrow> Area" where
  "area_at vx vy =
     \<lparr> a_id = ''a1'', a_x = vx, a_y = vy, a_width = Some (Fin 100), a_height = Some (Fin 50) \<rparr>"

definition no_node :: "string \<Rightarrow> Node option" where
  "no_node i = None"

definition no_overlaps :: "string \<Rightarrow> string list option" where
  "no_overlaps i = None"

definition idle_selected_node :: Node where
  "idle_selected_node =
     (tableToTableNode (Fin 224) show_every_table (table_at (Some (Fin 5)) (Some (Fin 5))))
       \<lparr> n_selected := Some True \<rparr>"

definition dragging_node :: Node where
  "dragging_node =
     (tableToTableNode (Fin 224) show_every_table (table_at (Some (Fin 5)) (Some (Fin 5))))
       \<lparr> n_dragging := Some True,
         n_measured := Some \<lparr> dim_width = Some (Fin 224), dim_height = Some (Fin 90) \<rparr> \<rparr>"

definition one_table_store :: "string \<Rightarrow> Node option" where
  "one_table_store i = (if i = ''t1'' then Some idle_selected_node else None)"


definition settle_change :: NodeChange where
  "settle_change =
     PositionChange ''t1'' (Some \<lparr> pos_x = Some (Fin (21 / 2)), pos_y = Some NaN \<rparr>)
       (Some False) None"

definition settled_change :: NodeChange where
  "settled_change =
     PositionChange ''t1'' (Some \<lparr> pos_x = Some (Fin (21 / 2)), pos_y = Some (Fin 5) \<rparr>)
       (Some False) None"



definition no_edge :: "string \<Rightarrow> Edge option" where
  "no_edge i = None"

definition sample_prefixes :: HandlePrefixes where
  "sample_prefixes =
     \<lparr> LEFT_HANDLE_ID_PREFIX = ''left_rel_'',
       TARGET_ID_PREFIX = ''target_rel_'',
       TOP_SOURCE_HANDLE_ID_PREFIX = ''top_dep_'',
       BOTTOM_SOURCE_HANDLE_ID_PREFIX = ''bottom_dep_'',
       TARGET_DEP_PREFIX = ''target_dep_'' \<rparr>"

definition sample_relationship :: "string \<Rightarrow> string \<Rightarrow> string \<Rightarrow> DBRelationship" where
  "sample_relationship i tableId fieldId =
     \<lparr> r_id = i, sourceTableId = ''s'', sourceFieldId = ''sf'', targetTableId = tableId,
       targetFieldId = fieldId \<rparr>"

definition sample_dependency :: "string \<Rightarrow> string \<Rightarrow> DBDependency" where
  "sample_dependency i tableId = \<lparr> d_id = i, d_tableId = tableId, dependentTableId = ''v'' \<rparr>"

definition sample_edge :: Edge where
  "sample_edge =
     \<lparr> e_id = ''r1'', e_source = ''t1'', e_target = ''t2'',
       e_sourceHandle = Some ''left_rel_f1'', e_targetHandle = Some ''target_rel_0_f2'',
       e_type = RelationshipEdge, e_data = None, e_hidden = None, e_selected = None,
       e_animated = None, e_zIndex = None \<rparr>"

definition sample_field :: "string \<Rightarrow> string \<Rightarrow> DBField" where
  "sample_field i ty =
     \<lparr> f_id = i, f_name = i, f_type = \<lparr> dt_id = ty, dt_name = ty \<rparr>, f_unique = False,
       f_primaryKey = False, f_nullable = True, f_characterMaximumLength = None,
       f_comments = None \<rparr>"

fun sample_getField :: "string \<Rightarrow> string \<Rightarrow> DBField option" where
  "sample_getField tableId fieldId =
     (if tableId = ''users'' \<and> fieldId = ''f1'' then Some (sample_field ''f1'' ''int'')
      else if tableId = ''orders'' \<and> fieldId = ''f2'' then Some (sample_field ''f2'' ''text'')
      else if tableId = ''orders'' \<and> fieldId = ''f3'' then Some (sample_field ''f3'' ''int'')
      else None)"

definition same_type_compatible :: "DataType \<Rightarrow> DataType \<Rightarrow> unit \<Rightarrow> bool" where
  "same_type_compatible a b db = (dt_id a = dt_id b)"

definition sample_gesture :: "string \<Rightarrow> AddEdgeParams" where
  "sample_gesture targetHandle =
     \<lparr> p_source = ''users'', p_target = ''orders'', p_sourceHandle = Some ''left_rel_f1'',
       p_targetHandle = Some targetHandle \<rparr>"

text \<open>The coordinate \<open>node?.position?.x\<close> of the node a change refers to, when there is one.\<close>

definition prior_x :: "(string \<Rightarrow> Node option) \<Rightarrow> string \<Rightarrow> jsval" where
  "prior_x getNode i = (case getNode i of None \<Rightarrow> None | Some nd \<Rightarrow> node_x nd)"

definition prior_y :: "(string \<Rightarrow> Node option) \<Rightarrow> string \<Rightarrow> jsval" where
  "prior_y getNode i = (case getNode i of None \<Rightarrow> None | Some nd \<Rightarrow> node_y nd)"

section \<open>Position sanitizing\<close>

lemma isNaN_iff: "isNaN n = (n = NaN)"
  by (cases n) auto

lemma valid_or_zero_not_NaN: "\<not> isNaN (valid_or_zero v)"
  by (cases v) auto

lemma valid_or_zero_invalid: "\<not> is_valid_number v \<Longrightarrow> valid_or_zero v = Fin 0"
  by (cases v) auto

lemma valid_or_zero_valid: "is_valid_number v \<Longrightarrow> Some (valid_or_zero v) = v"
  by (cases v) auto

lemma sanitize_coord_valid: "is_valid_number v \<Longrightarrow> Some (sanitize_coord v prior) = v"
  by (cases v) auto

lemma sanitize_coord_invalid: "\<not> is_valid_number v \<Longrightarrow> sanitize_coord v prior = or_zero prior"
  by (cases v) auto

lemma sanitize_coord_not_NaN:
  "prior \<noteq> Some NaN \<Longrightarrow> \<not> isNaN (sanitize_coord v prior)"
  by (cases v; cases prior) (auto simp: isNaN_iff)

text \<open>
  Claim C1, as stated, fails: the validity test is \<open>!isNaN\<close>, so an infinite coordinate of a
  table is a number other than NaN and \<open>tableToTableNode\<close> passes it on unchanged.
\<close>

theorem C1_counterexample:
  "node_x (tableToTableNode (Fin 224) show_every_table (table_at (Some PosInf) (Some (Fin 0))))
     = Some PosInf \<and> \<not> isFinite PosInf"
  by (simp add: node_x_def tableToTableNode_def table_at_def)

text \<open>
  Claim C1, amended: a table coordinate that is NaN or not a number is projected to 0 by
  \<open>tableToTableNode\<close>, any other number (the infinities included) is projected unchanged,
  and the projected coordinate is never NaN. In \<open>onNodesChangeHandler\<close> a coordinate of a
  position change that is a number other than NaN is kept; one that is NaN or not a number
  is replaced by the coordinate of the node the change refers to when that is a number
  other than NaN, and by 0 when there is no node or the node has no such coordinate; in
  these cases the result is never NaN.
\<close>

theorem C1_nan_sanitized:
  "(\<not> is_valid_number (t_x table) \<longrightarrow>
       node_x (tableToTableNode M shouldShow table) = Some (Fin 0))
   \<and> (\<not> is_valid_number (t_y table) \<longrightarrow>
       node_y (tableToTableNode M shouldShow table) = Some (Fin 0))
   \<and> (is_valid_number (t_x table) \<longrightarrow>
       node_x (tableToTableNode M shouldShow table) = t_x table)
   \<and> (is_valid_number (t_y table) \<longrightarrow>
       node_y (tableToTableNode M shouldShow table) = t_y table)
   \<and> node_x (tableToTableNode M shouldShow table) \<noteq> None
   \<and> node_x (tableToTableNode M shouldShow table) \<noteq> Some NaN
   \<and> node_y (tableToTableNode M shouldShow table) \<noteq> None
   \<and> node_y (tableToTableNode M shouldShow table) \<noteq> Some NaN
   \<and> (\<exists>a b. sanitize_change getNode (PositionChange i (Some p) d m)
               = PositionChange i (Some \<lparr> pos_x = Some a, pos_y = Some b \<rparr>) d
                   (case getNode i of None \<Rightarrow> None | Some nd \<Rightarrow> n_measured nd)
        \<and> (is_valid_number (pos_x p) \<longrightarrow> Some a = pos_x p)
        \<and> (is_valid_number (pos_y p) \<longrightarrow> Some b = pos_y p)
        \<and> (\<not> is_valid_number (pos_x p) \<and> is_valid_number (prior_x getNode i)
              \<longrightarrow> Some a = prior_x getNode i)
        \<and> (\<not> is_valid_number (pos_y p) \<and> is_valid_number (prior_y getNode i)
              \<longrightarrow> Some b = prior_y getNode i)
        \<and> (\<not> is_valid_number (pos_x p) \<and> prior_x getNode i = None \<longrightarrow> a = Fin 0)
        \<and> (\<not> is_valid_number (pos_y p) \<and> prior_y getNode i = None \<longrightarrow> b = Fin 0)
        \<and> (is_valid_number (prior_x getNode i) \<or> prior_x getNode i = None \<longrightarrow> \<not> isNaN a)
        \<and> (is_valid_number (prior_y getNode i) \<or> prior_y getNode i = None \<longrightarrow> \<not> isNaN b))"
proof -
  have proj: "node_x (tableToTableNode M shouldShow table) = Some (valid_or_zero (t_x table))"
             "node_y (tableToTableNode M shouldShow table) = Some (valid_or_zero (t_y table))"
    by (simp_all add: node_x_def node_y_def tableToTableNode_def)
  have nx: "valid_or_zero (t_x table) \<noteq> NaN" "valid_or_zero (t_y table) \<noteq> NaN"
    using valid_or_zero_not_NaN [of "t_x table"] valid_or_zero_not_NaN [of "t_y table"]
    by auto
  have san: "sanitize_change getNode (PositionChange i (Some p) d m)
      = PositionChange i (Some \<lparr> pos_x = Some (sanitize_coord (pos_x p) (prior_x getNode i)),
                                  pos_y = Some (sanitize_coord (pos_y p) (prior_y getNode i)) \<rparr>) d
          (case getNode i of None \<Rightarrow> None | Some nd \<Rightarrow> n_measured nd)"
    by (simp add: prior_x_def prior_y_def Let_def)
  have fall: "is_valid_number prior \<Longrightarrow> Some (or_zero prior) = prior" for prior
    by (cases prior) auto
  have nn: "is_valid_number prior \<or> prior = None \<Longrightarrow> \<not> isNaN (sanitize_coord v prior)"
    for v prior
    by (rule sanitize_coord_not_NaN) auto
  have part1: "(\<not> is_valid_number (t_x table) \<longrightarrow>
       node_x (tableToTableNode M shouldShow table) = Some (Fin 0))
   \<and> (\<not> is_valid_number (t_y table) \<longrightarrow>
       node_y (tableToTableNode M shouldShow table) = Some (Fin 0))
   \<and> (is_valid_number (t_x table) \<longrightarrow>
       node_x (tableToTableNode M shouldShow table) = t_x table)
   \<and> (is_valid_number (t_y table) \<longrightarrow>
       node_y (tableToTableNode M shouldShow table) = t_y table)
   \<and> node_x (tableToTableNode M shouldShow table) \<noteq> None
   \<and> node_x (tableToTableNode M shouldShow table) \<noteq> Some NaN
   \<and> node_y (tableToTableNode M shouldShow table) \<noteq> None
   \<and> node_y (tableToTableNode M shouldShow table) \<noteq> Some NaN"
    using proj nx by (auto simp: valid_or_zero_invalid valid_or_zero_valid)
  have part2: "\<exists>a b. sanitize_change getNode (PositionChange i (Some p) d m)
               = PositionChange i (Some \<lparr> pos_x = Some a, pos_y = Some b \<rparr>) d
                   (case getNode i of None \<Rightarrow> None | Some nd \<Rightarrow> n_measured nd)
        \<and> (is_valid_number (pos_x p) \<longrightarrow> Some a = pos_x p)
        \<and> (is_valid_number (pos_y p) \<longrightarrow> Some b = pos_y p)
        \<and> (\<not> is_valid_number (pos_x p) \<and> is_valid_number (prior_x getNode i)
              \<longrightarrow> Some a = prior_x getNode i)
        \<and> (\<not> is_valid_number (pos_y p) \<and> is_valid_number (prior_y getNode i)
              \<longrightarrow> Some b = prior_y getNode i)
        \<and> (\<not> is_valid_number (pos_x p) \<and> prior_x getNode i = None \<longrightarrow> a = Fin 0)
        \<and> (\<not> is_valid_number (pos_y p) \<and> prior_y getNode i = None \<longrightarrow> b = Fin 0)
        \<and> (is_valid_number (prior_x getNode i) \<or> prior_x getNode i = None \<longrightarrow> \<not> isNaN a)
        \<and> (is_valid_number (prior_y getNode i) \<or> prior_y getNode i = None \<longrightarrow> \<not> isNaN b)"
    apply (rule exI [of _ "sanitize_coord (pos_x p) (prior_x getNode i)"])
    apply (rule exI [of _ "sanitize_coord (pos_y p) (prior_y getNode i)"])
    using san nn [of "prior_x getNode i" "pos_x p"] nn [of "prior_y getNode i" "pos_y p"]
    by (auto simp: sanitize_coord_valid sanitize_coord_invalid fall)
  show ?thesis using part1 part2 by blast
qed

theorem C1_nan_sanitized_witness:
  "\<not> is_valid_number (t_x (table_at (Some NaN) None))
   \<and> \<not> is_valid_number (t_y (table_at (Some NaN) None))
   \<and> n_position (tableToTableNode (Fin 224) show_every_table (table_at (Some NaN) None))
       = Some \<lparr> pos_x = Some (Fin 0), pos_y = Some (Fin 0) \<rparr>
   \<and> is_valid_number (t_x (table_at (Some (Fin 3)) (Some NegInf)))
   \<and> is_valid_number (t_y (table_at (Some (Fin 3)) (Some NegInf)))
   \<and> node_x (tableToTableNode (Fin 224) show_every_table (table_at (Some (Fin 3)) (Some NegInf)))
       = Some (Fin 3)
   \<and> node_y (tableToTableNode (Fin 224) show_every_table (table_at (Some (Fin 3)) (Some NegInf)))
       = Some NegInf
   \<and> \<not> is_valid_number (pos_x \<lparr> pos_x = Some NaN, pos_y = Some (Fin 7) \<rparr>)
   \<and> is_valid_number (pos_y \<lparr> pos_x = Some NaN, pos_y = Some (Fin 7) \<rparr>)
   \<and> prior_x no_node ''t1'' = None
   \<and> is_valid_number (prior_x one_table_store ''t1'')
   \<and> sanitize_change no_node
        (PositionChange ''t1'' (Some \<lparr> pos_x = Some NaN, pos_y = Some (Fin 7) \<rparr>) None None)
      = PositionChange ''t1'' (Some \<lparr> pos_x = Some (Fin 0), pos_y = Some (Fin 7) \<rparr>) None None
   \<and> sanitize_change one_table_store
        (PositionChange ''t1'' (Some \<lparr> pos_x = Some NaN, pos_y = Some (Fin 7) \<rparr>) None None)
      = PositionChange ''t1'' (Some \<lparr> pos_x = Some (Fin 5), pos_y = Some (Fin 7) \<rparr>) None None"
proof -
  let ?p = "\<lparr> pos_x = Some NaN, pos_y = Some (Fin 7) \<rparr>"
  have px: "\<not> is_valid_number (pos_x ?p)" and py: "is_valid_number (pos_y ?p)"
    and pyv: "pos_y ?p = Some (Fin 7)"
    by simp_all
  have n0: "prior_x no_node ''t1'' = None" "no_node ''t1'' = None"
    by (simp_all add: prior_x_def no_node_def)
  have n1: "prior_x one_table_store ''t1'' = Some (Fin 5)"
    "(case one_table_store ''t1'' of None \<Rightarrow> None | Some nd \<Rightarrow> n_measured nd) = None"
    by (simp_all add: prior_x_def one_table_store_def idle_selected_node_def node_x_def
        tableToTableNode_def table_at_def)
  have v1: "is_valid_number (prior_x one_table_store ''t1'')"
    unfolding n1 by simp
  note ta = C1_nan_sanitized [of "table_at (Some NaN) None" "Fin 224" show_every_table
      no_node "''t1''" ?p None None]
  note tb = C1_nan_sanitized [of "table_at (Some (Fin 3)) (Some NegInf)" "Fin 224"
      show_every_table one_table_store "''t1''" ?p None None]
  have t1: "\<not> is_valid_number (t_x (table_at (Some NaN) None))"
    "\<not> is_valid_number (t_y (table_at (Some NaN) None))"
    "is_valid_number (t_x (table_at (Some (Fin 3)) (Some NegInf)))"
    "is_valid_number (t_y (table_at (Some (Fin 3)) (Some NegInf)))"
    "t_x (table_at (Some (Fin 3)) (Some NegInf)) = Some (Fin 3)"
    "t_y (table_at (Some (Fin 3)) (Some NegInf)) = Some NegInf"
    by (simp_all add: table_at_def)
  have pos0: "n_position (tableToTableNode (Fin 224) show_every_table (table_at (Some NaN) None))
       = Some \<lparr> pos_x = Some (Fin 0), pos_y = Some (Fin 0) \<rparr>"
    using ta t1(1,2) by (auto simp: node_x_def node_y_def tableToTableNode_def)
  have pos3: "node_x (tableToTableNode (Fin 224) show_every_table
                (table_at (Some (Fin 3)) (Some NegInf))) = Some (Fin 3)"
    "node_y (tableToTableNode (Fin 224) show_every_table
                (table_at (Some (Fin 3)) (Some NegInf))) = Some NegInf"
    using tb t1(3-6) by auto
  from ta obtain a b where
    ab: "sanitize_change no_node (PositionChange ''t1'' (Some ?p) None None)
           = PositionChange ''t1'' (Some \<lparr> pos_x = Some a, pos_y = Some b \<rparr>) None
               (case no_node ''t1'' of None \<Rightarrow> None | Some nd \<Rightarrow> n_measured nd)"
    and a0: "\<not> is_valid_number (pos_x ?p) \<and> prior_x no_node ''t1'' = None \<longrightarrow> a = Fin 0"
    and b0: "is_valid_number (pos_y ?p) \<longrightarrow> Some b = pos_y ?p"
    by blast
  have s0: "sanitize_change no_node (PositionChange ''t1'' (Some ?p) None None)
      = PositionChange ''t1'' (Some \<lparr> pos_x = Some (Fin 0), pos_y = Some (Fin 7) \<rparr>) None None"
    using ab a0 b0 px py n0 by (simp only: pyv option.simps option.inject) simp
  from tb obtain a' b' where
    ab': "sanitize_change one_table_store (PositionChange ''t1'' (Some ?p) None None)
           = PositionChange ''t1'' (Some \<lparr> pos_x = Some a', pos_y = Some b' \<rparr>) None
               (case one_table_store ''t1'' of None \<Rightarrow> None | Some nd \<Rightarrow> n_measured nd)"
    and a1: "\<not> is_valid_number (pos_x ?p) \<and> is_valid_number (prior_x one_table_store ''t1'')
               \<longrightarrow> Some a' = prior_x one_table_store ''t1''"
    and b1: "is_valid_number (pos_y ?p) \<longrightarrow> Some b' = pos_y ?p"
    by blast
  have s1: "sanitize_change one_table_store (PositionChange ''t1'' (Some ?p) None None)
      = PositionChange ''t1'' (Some \<lparr> pos_x = Some (Fin 5), pos_y = Some (Fin 7) \<rparr>) None None"
    using ab' a1 b1 px py v1 n1 by (simp only: pyv option.simps option.inject) simp
  show ?thesis
    using t1(1-4) pos0 pos3 px py n0(1) v1 s0 s1 by (intro conjI)
qed

text \<open>
  Claim C8: every area, also one with a non-finite coordinate, is projected to a node with
  finite coordinates. \<open>areaToAreaNode\<close> copies the coordinates unchanged, so a NaN
  coordinate of an area reaches the node, where the table projection puts 0 for the same
  value.
\<close>

theorem C8_area_nan_passes:
  "node_x (areaToAreaNode (area_at (Some NaN) (Some (Fin 0)))) = Some NaN
   \<and> \<not> isFinite NaN
   \<and> node_x (tableToTableNode (Fin 224) show_every_table (table_at (Some NaN) (Some (Fin 0))))
       = Some (Fin 0)"
  by (simp add: node_x_def areaToAreaNode_def area_at_def tableToTableNode_def table_at_def)

section \<open>Reconciliation of node changes\<close>

lemma sanitize_change_is_remove [simp]: "is_remove (sanitize_change g c) = is_remove c"
  by (cases "(g, c)" rule: sanitize_change.cases) (auto simp: Let_def)

lemma sanitize_change_is_position [simp]: "is_position (sanitize_change g c) = is_position c"
  by (cases "(g, c)" rule: sanitize_change.cases) (auto simp: Let_def)

lemma sanitize_change_is_dimensions [simp]:
  "is_dimensions (sanitize_change g c) = is_dimensions c"
  by (cases "(g, c)" rule: sanitize_change.cases) (auto simp: Let_def)

lemma sanitize_change_id [simp]: "change_id (sanitize_change g c) = change_id c"
  by (cases "(g, c)" rule: sanitize_change.cases) (auto simp: Let_def)

lemma sanitize_change_dragging [simp]:
  "change_dragging (sanitize_change g c) = change_dragging c"
  by (cases "(g, c)" rule: sanitize_change.cases) (auto simp: Let_def)

lemma sanitize_change_resizing [simp]:
  "change_resizing (sanitize_change g c) = change_resizing c"
  by (cases "(g, c)" rule: sanitize_change.cases) (auto simp: Let_def)


lemma positionChanges_of_settled:
  "c \<in> set (positionChanges_of getNode cs ty) \<Longrightarrow>
     c \<in> set cs \<and> is_position c \<and> \<not> truthy (change_dragging c)"
  by (auto simp: positionChanges_of_def relevantChanges_def)


lemma isDragging_never:
  "list_ex (\<lambda>change. if is_position change then truthy (change_dragging change) else False)
     (positionChanges_of getNode cs ty) = False"
  by (auto simp: list_ex_iff dest: positionChanges_of_settled)

lemma table_effects_eq:
  "table_effects getNode cs =
     (if positionChanges_of getNode cs TableKind \<noteq> [] \<or> removeChanges_of getNode cs TableKind \<noteq> []
         \<or> sizeChanges_of getNode cs TableKind \<noteq> []
      then [UpdateTablesState (positionChanges_of getNode cs TableKind)
              (removeChanges_of getNode cs TableKind),
            UpdateOverlappingGraphOnChangesDebounced (positionChanges_of getNode cs TableKind)
              (sizeChanges_of getNode cs TableKind)]
      else [])"
  by (simp add: table_effects_def findRelevantNodesChanges_def isDragging_never)

lemma area_effects_kinds:
  "e \<in> set (area_effects getNode cs) \<Longrightarrow> (\<exists>i u. e = UpdateArea i u) \<or> (\<exists>i. e = RemoveArea i)"
  by (auto simp: area_effects_def findRelevantNodesChanges_def Let_def split: if_splits)

lemma area_effects_filter_update [simp]:
  "filter is_UpdateTablesState (area_effects getNode cs) = []"
  by (auto simp: filter_empty_conv dest: area_effects_kinds)

lemma area_effects_filter_overlap [simp]:
  "filter is_overlap_trigger (area_effects getNode cs) = []"
  by (auto simp: filter_empty_conv dest: area_effects_kinds)










text \<open>The handler on concrete batches for the one-table store.\<close>

lemma settle_batch_effects:
  "onNodesChangeHandler ro one_table_store [settle_change] =
     [UpdateTablesState [settled_change] [],
      UpdateOverlappingGraphOnChangesDebounced [settled_change] [],
      OnNodesChange [settled_change]]"
  by (simp add: onNodesChangeHandler_def changesToApply_of_def table_effects_def
      area_effects_def findRelevantNodesChanges_def positionChanges_of_def removeChanges_of_def
      sizeChanges_of_def relevantChanges_def one_table_store_def idle_selected_node_def
      tableToTableNode_def table_at_def settle_change_def settled_change_def node_x_def
      node_y_def Let_def)

lemma readonly_batch_effects:
  "onNodesChangeHandler True one_table_store [RemoveChange ''t1'', settle_change] =
     [UpdateTablesState [settled_change] [],
      UpdateOverlappingGraphOnChangesDebounced [settled_change] [],
      OnNodesChange [settled_change]]"
  by (simp add: onNodesChangeHandler_def changesToApply_of_def table_effects_def
      area_effects_def findRelevantNodesChanges_def positionChanges_of_def removeChanges_of_def
      sizeChanges_of_def relevantChanges_def one_table_store_def idle_selected_node_def
      tableToTableNode_def table_at_def settle_change_def settled_change_def node_x_def
      node_y_def Let_def)

lemma writable_batch_effects:
  "onNodesChangeHandler False one_table_store [RemoveChange ''t1''] =
     [UpdateTablesState [] [RemoveChange ''t1''],
      UpdateOverlappingGraphOnChangesDebounced [] [],
      OnNodesChange [RemoveChange ''t1'']]"
  by (simp add: onNodesChangeHandler_def changesToApply_of_def table_effects_def
      area_effects_def findRelevantNodesChanges_def positionChanges_of_def removeChanges_of_def
      sizeChanges_of_def relevantChanges_def one_table_store_def idle_selected_node_def
      tableToTableNode_def table_at_def Let_def)

lemma changesToApply_readonly_no_remove:
  "c \<in> set (changesToApply_of True getNode changes) \<Longrightarrow> \<not> is_remove c"
  by (auto simp: changesToApply_of_def Let_def)

lemma removeChanges_of_readonly:
  "removeChanges_of getNode (changesToApply_of True g changes) ty = []"
  by (auto simp: removeChanges_of_def relevantChanges_def filter_empty_conv
      dest: changesToApply_readonly_no_remove)
lemma area_effects_no_removal:
  "removeChanges_of getNode cs AreaKind = [] \<Longrightarrow> e \<in> set (area_effects getNode cs)
     \<Longrightarrow> \<exists>i u. e = UpdateArea i u"
  by (auto simp: area_effects_def findRelevantNodesChanges_def Let_def split: if_splits)

lemma tables_updater_no_removes:
  "map t_id (tables_updater pcs [] tables) = map t_id tables"
  by (induction tables) (auto simp: tables_updater_def split: option.splits)















text \<open>
  Claim C4: in read-only mode \<open>onEdgesChangeHandler\<close> calls neither \<open>removeRelationships\<close>
  nor \<open>removeDependencies\<close> and forwards the changes without the remove changes; no call
  \<open>onNodesChangeHandler\<close> makes is \<open>removeArea\<close> or an \<open>updateTablesState\<close> whose updater has
  a remove change to filter by, so the updater keeps every table, and the changes it
  forwards hold no remove change.
\<close>

theorem C4_readonly_no_removal:
  "onEdgesChangeHandler True getEdge edgeChanges
     = [OnEdgesChange (filter (\<lambda>change. \<not> is_edge_remove change) edgeChanges)]
   \<and> (\<forall>e \<in> set (onNodesChangeHandler True getNode nodeChanges).
         \<not> is_removal_effect e
         \<and> (\<forall>cs. e = OnNodesChange cs \<longrightarrow> cs = filter (\<lambda>change. \<not> is_remove change) cs)
         \<and> (\<forall>pcs rcs. e = UpdateTablesState pcs rcs \<longrightarrow>
               map t_id (tables_updater pcs rcs tables) = map t_id tables))"
proof -
  have edges: "onEdgesChangeHandler True getEdge edgeChanges
     = [OnEdgesChange (filter (\<lambda>change. \<not> is_edge_remove change) edgeChanges)]"
    by (simp add: onEdgesChangeHandler_def Let_def List.map_filter_def)
  let ?cs = "changesToApply_of True getNode nodeChanges"
  have rt: "removeChanges_of getNode ?cs TableKind = []"
    and ra: "removeChanges_of getNode ?cs AreaKind = []"
    by (rule removeChanges_of_readonly)+
  have te: "\<not> is_removal_effect e
         \<and> (\<forall>cs. e = OnNodesChange cs \<longrightarrow> cs = filter (\<lambda>change. \<not> is_remove change) cs)
         \<and> (\<forall>pcs rcs. e = UpdateTablesState pcs rcs \<longrightarrow>
               map t_id (tables_updater pcs rcs tables) = map t_id tables)"
    if "e \<in> set (table_effects getNode ?cs)" for e
    using that rt
    by (auto simp: table_effects_eq tables_updater_no_removes split: if_splits)
  have ae: "\<not> is_removal_effect e
         \<and> (\<forall>cs. e = OnNodesChange cs \<longrightarrow> cs = filter (\<lambda>change. \<not> is_remove change) cs)
         \<and> (\<forall>pcs rcs. e = UpdateTablesState pcs rcs \<longrightarrow>
               map t_id (tables_updater pcs rcs tables) = map t_id tables)"
    if "e \<in> set (area_effects getNode ?cs)" for e
    using area_effects_no_removal [OF ra that] by auto
  have fw: "?cs = filter (\<lambda>change. \<not> is_remove change) ?cs"
    by (simp add: changesToApply_of_def Let_def)
  have nodes: "\<forall>e \<in> set (onNodesChangeHandler True getNode nodeChanges).
         \<not> is_removal_effect e
         \<and> (\<forall>cs. e = OnNodesChange cs \<longrightarrow> cs = filter (\<lambda>change. \<not> is_remove change) cs)
         \<and> (\<forall>pcs rcs. e = UpdateTablesState pcs rcs \<longrightarrow>
               map t_id (tables_updater pcs rcs tables) = map t_id tables)"
    unfolding onNodesChangeHandler_def Let_def
    using te ae fw by auto
  show ?thesis using edges nodes by blast
qed

theorem C4_readonly_no_removal_witness:
  "onEdgesChangeHandler True no_edge [EdgeRemove ''r1'', EdgeSelect ''r1'' True]
     = [OnEdgesChange [EdgeSelect ''r1'' True]]
   \<and> UpdateTablesState [settled_change] []
       \<in> set (onNodesChangeHandler True one_table_store [RemoveChange ''t1'', settle_change])
   \<and> \<not> is_removal_effect (UpdateTablesState [settled_change] [])
   \<and> map t_id (tables_updater [settled_change] [] [table_at None None]) = [''t1'']"
proof -
  note th = C4_readonly_no_removal [of no_edge "[EdgeRemove ''r1'', EdgeSelect ''r1'' True]"
      one_table_store "[RemoveChange ''t1'', settle_change]" "[table_at None None]"]
  have e: "onEdgesChangeHandler True no_edge [EdgeRemove ''r1'', EdgeSelect ''r1'' True]
     = [OnEdgesChange [EdgeSelect ''r1'' True]]"
    using th [THEN conjunct1] by simp
  have mem: "UpdateTablesState [settled_change] []
       \<in> set (onNodesChangeHandler True one_table_store [RemoveChange ''t1'', settle_change])"
    unfolding readonly_batch_effects by simp
  note inst = bspec [OF th [THEN conjunct2] mem]
  have r: "\<not> is_removal_effect (UpdateTablesState [settled_change] [])"
    using inst [THEN conjunct1] .
  have "map t_id (tables_updater [settled_change] [] [table_at None None])
          = map t_id [table_at None None]"
    using inst [THEN conjunct2, THEN conjunct2] by blast
  then have k: "map t_id (tables_updater [settled_change] [] [table_at None None]) = [''t1'']"
    by (simp add: table_at_def)
  show ?thesis using e mem r k by (intro conjI)
qed

section \<open>Connect gestures: properties\<close>

lemma last_segment_f1: "last_segment (Some ''left_rel_f1'') = ''f1''"
  by (simp add: last_segment_def)

lemma last_segment_f2: "last_segment (Some ''target_rel_0_f2'') = ''f2''"
  by (simp add: last_segment_def)

lemma last_segment_f3: "last_segment (Some ''target_rel_0_f3'') = ''f3''"
  by (simp add: last_segment_def)

lemma sample_gesture_not_dependency:
  "\<not> is_dependency_gesture sample_prefixes (sample_gesture h)"
  by (simp add: is_dependency_gesture_def sample_gesture_def sample_prefixes_def startsWith_def)

text \<open>
  Claim C5: a connect gesture between two field handles (its source handle is not one of
  the two dependency handles) whose resolved source and target fields both exist makes
  exactly one call: a warning toast and no \<open>createRelationship\<close> when the dialect finds the
  two types incompatible, and otherwise \<open>createRelationship\<close> with the resolved source
  table, target table, source field and target field.
\<close>

theorem C5_connect:
  assumes "\<not> is_dependency_gesture P params"
    and "getField (p_source params) (last_segment (p_sourceHandle params)) = Some sourceField"
    and "getField (p_target params) (last_segment (p_targetHandle params)) = Some targetField"
  shows "onConnectHandler P getField areFieldTypesCompatible databaseType params =
     (if areFieldTypesCompatible (f_type sourceField) (f_type targetField) databaseType
      then [CreateRelationship (p_source params) (p_target params)
              (last_segment (p_sourceHandle params)) (last_segment (p_targetHandle params))]
      else [Toast ''Field types are not compatible'' ''destructive''
              ''Relationships can only be created between compatible field types''])"
  using assms by (simp add: onConnectHandler_def Let_def)

theorem C5_connect_witness:
  "\<not> is_dependency_gesture sample_prefixes (sample_gesture ''target_rel_0_f2'')
   \<and> sample_getField ''users'' ''f1'' = Some (sample_field ''f1'' ''int'')
   \<and> sample_getField ''orders'' ''f2'' = Some (sample_field ''f2'' ''text'')
   \<and> sample_getField ''orders'' ''f3'' = Some (sample_field ''f3'' ''int'')
   \<and> onConnectHandler sample_prefixes sample_getField same_type_compatible ()
        (sample_gesture ''target_rel_0_f2'')
      = [Toast ''Field types are not compatible'' ''destructive''
           ''Relationships can only be created between compatible field types'']
   \<and> onConnectHandler sample_prefixes sample_getField same_type_compatible ()
        (sample_gesture ''target_rel_0_f3'')
      = [CreateRelationship ''users'' ''orders'' ''f1'' ''f3'']"
proof -
  have s: "p_source (sample_gesture h) = ''users''" "p_target (sample_gesture h) = ''orders''"
    "p_sourceHandle (sample_gesture h) = Some ''left_rel_f1''"
    "p_targetHandle (sample_gesture h) = Some h" for h
    by (simp_all add: sample_gesture_def)
  have g1: "sample_getField ''users'' ''f1'' = Some (sample_field ''f1'' ''int'')"
    and g2: "sample_getField ''orders'' ''f2'' = Some (sample_field ''f2'' ''text'')"
    and g3: "sample_getField ''orders'' ''f3'' = Some (sample_field ''f3'' ''int'')"
    by simp_all
  have bad: "onConnectHandler sample_prefixes sample_getField same_type_compatible ()
        (sample_gesture ''target_rel_0_f2'')
      = [Toast ''Field types are not compatible'' ''destructive''
           ''Relationships can only be created between compatible field types'']"
    using C5_connect [of sample_prefixes "sample_gesture ''target_rel_0_f2''" sample_getField
        "sample_field ''f1'' ''int''" "sample_field ''f2'' ''text''" same_type_compatible "()"]
      sample_gesture_not_dependency [of "''target_rel_0_f2''"] g1 g2
    by (simp add: s last_segment_f1 last_segment_f2 same_type_compatible_def sample_field_def)
  have good: "onConnectHandler sample_prefixes sample_getField same_type_compatible ()
        (sample_gesture ''target_rel_0_f3'')
      = [CreateRelationship ''users'' ''orders'' ''f1'' ''f3'']"
    using C5_connect [of sample_prefixes "sample_gesture ''target_rel_0_f3''" sample_getField
        "sample_field ''f1'' ''int''" "sample_field ''f3'' ''int''" same_type_compatible "()"]
      sample_gesture_not_dependency [of "''target_rel_0_f3''"] g1 g3
    by (simp add: s last_segment_f1 last_segment_f3 same_type_compatible_def sample_field_def)
  show ?thesis
    using bad good g1 g2 g3 sample_gesture_not_dependency [of "''target_rel_0_f2''"]
    by (intro conjI)
qed

section \<open>The field editor: properties\<close>

text \<open>
  Claim C10: pressing the primary-key toggle to \<open>v\<close> makes one call of the debounced writer,
  with an update that sets \<open>unique\<close> and \<open>primaryKey\<close> to \<open>v\<close> and nothing else; pressing the
  nullable toggle makes one call with an update that sets \<open>nullable\<close> only.
\<close>

theorem C10_toggles:
  "primaryKey_onPressedChange v =
     [DebouncedUpdate \<lparr> pf_name = None, pf_type = None, pf_unique = Some v,
        pf_primaryKey = Some v, pf_nullable = None, pf_characterMaximumLength = None,
        pf_comments = None \<rparr>]
   \<and> nullable_onPressedChange v =
     [DebouncedUpdate \<lparr> pf_name = None, pf_type = None, pf_unique = None,
        pf_primaryKey = None, pf_nullable = Some v, pf_characterMaximumLength = None,
        pf_comments = None \<rparr>]"
  by (simp add: primaryKey_onPressedChange_def nullable_onPressedChange_def empty_partial_def)

section \<open>Edge projection: properties\<close>

lemma relationship_edges_hidden:
  "e \<in> set (relationship_edges P idx rels) \<Longrightarrow> e_type e = RelationshipEdge \<and> e_hidden e = None"
  by (induction rels arbitrary: idx) auto

lemma dependency_edges_hidden:
  "e \<in> set (dependency_edges P hid idx deps) \<Longrightarrow> e_type e = DependencyEdge \<and> e_hidden e = Some hid"
  by (induction deps arbitrary: idx) auto

text \<open>
  Claim C9: a projected dependency edge has \<open>hidden\<close> set, and set to true exactly when the
  preference \<open>showDependenciesOnCanvas\<close> is off and the database type is not ClickHouse; a
  projected relationship edge has no \<open>hidden\<close> key at all.
\<close>

theorem C9_dependency_hidden:
  "\<forall>e \<in> set (edges_projection P showDependenciesOnCanvas databaseType CLICKHOUSE
                 relationships dependencies).
     (e_type e = DependencyEdge \<longrightarrow>
        e_hidden e = Some (\<not> showDependenciesOnCanvas \<and> databaseType \<noteq> CLICKHOUSE))
     \<and> (e_type e = RelationshipEdge \<longrightarrow> e_hidden e = None)"
  by (auto simp: edges_projection_def dest: relationship_edges_hidden dependency_edges_hidden)

theorem C9_dependency_hidden_witness:
  "(\<exists>e \<in> set (edges_projection sample_prefixes False ''postgresql'' ''clickhouse''
                  [sample_relationship ''r1'' ''a'' ''bc''] [sample_dependency ''d1'' ''a'']).
      e_type e = DependencyEdge \<and> e_hidden e = Some True)
   \<and> (\<exists>e \<in> set (edges_projection sample_prefixes False ''postgresql'' ''clickhouse''
                  [sample_relationship ''r1'' ''a'' ''bc''] [sample_dependency ''d1'' ''a'']).
      e_type e = RelationshipEdge \<and> e_hidden e = None)
   \<and> (\<exists>e \<in> set (edges_projection sample_prefixes False ''clickhouse'' ''clickhouse''
                  [sample_relationship ''r1'' ''a'' ''bc''] [sample_dependency ''d1'' ''a'']).
      e_type e = DependencyEdge \<and> e_hidden e = Some False)"
proof -
  let ?es = "edges_projection sample_prefixes False ''postgresql'' ''clickhouse''
               [sample_relationship ''r1'' ''a'' ''bc''] [sample_dependency ''d1'' ''a'']"
  let ?ec = "edges_projection sample_prefixes False ''clickhouse'' ''clickhouse''
               [sample_relationship ''r1'' ''a'' ''bc''] [sample_dependency ''d1'' ''a'']"
  have d: "\<exists>e \<in> set ?es. e_type e = DependencyEdge"
    and r: "\<exists>e \<in> set ?es. e_type e = RelationshipEdge"
    and c: "\<exists>e \<in> set ?ec. e_type e = DependencyEdge"
    by (simp_all add: edges_projection_def)
  have h1: "(\<not> False \<and> ''postgresql'' \<noteq> ''clickhouse'') = True"
    and h2: "(\<not> False \<and> ''clickhouse'' \<noteq> ''clickhouse'') = False"
    by simp_all
  note t1 = C9_dependency_hidden [of sample_prefixes False "''postgresql''" "''clickhouse''"
      "[sample_relationship ''r1'' ''a'' ''bc'']" "[sample_dependency ''d1'' ''a'']",
      unfolded h1]
  note t2 = C9_dependency_hidden [of sample_prefixes False "''clickhouse''" "''clickhouse''"
      "[sample_relationship ''r1'' ''a'' ''bc'']" "[sample_dependency ''d1'' ''a'']",
      unfolded h2]
  have a: "\<exists>e \<in> set ?es. e_type e = DependencyEdge \<and> e_hidden e = Some True"
    using d t1 by blast
  have b: "\<exists>e \<in> set ?es. e_type e = RelationshipEdge \<and> e_hidden e = None"
    using r t1 by blast
  have e: "\<exists>e \<in> set ?ec. e_type e = DependencyEdge \<and> e_hidden e = Some False"
    using c t2 by blast
  show ?thesis using a b e by (intro conjI)
qed

lemma string_of_nat_0: "string_of_nat 0 = ''0''"
  by (simp add: string_of_nat.simps [of 0] digit_char_def)

lemma string_of_nat_1: "string_of_nat (Suc 0) = ''1''"
  by (simp add: string_of_nat.simps [of "Suc 0"] digit_char_def)

lemma relationship_edges_length [simp]:
  "length (relationship_edges P idx rels) = length rels"
  by (induction rels arbitrary: idx) auto

lemma dependency_edges_length [simp]:
  "length (dependency_edges P hid idx deps) = length deps"
  by (induction deps arbitrary: idx) auto

lemma relationship_edges_handle:
  "k < length rels \<Longrightarrow>
   e_targetHandle (relationship_edges P idx rels ! k)
     = Some (TARGET_ID_PREFIX P
             @ index_string (map_option
                 (\<lambda>n. n + length (filter (\<lambda>r. target_key r = target_key (rels ! k)) (take k rels)))
                 (idx (target_key (rels ! k))))
             @ ''_'' @ targetFieldId (rels ! k))"
proof (induction rels arbitrary: idx k)
  case Nil
  then show ?case by simp
next
  case (Cons r rels)
  show ?case
  proof (cases k)
    case 0
    then show ?thesis by (cases "idx (target_key r)") simp_all
  next
    case (Suc j)
    with Cons.prems have j: "j < length rels" by simp
    define idx' where "idx' = idx(target_key r := map_option Suc (idx (target_key r)))"
    have step: "relationship_edges P idx (r # rels) ! k = relationship_edges P idx' rels ! j"
      by (simp add: Suc idx'_def)
    have cnt: "map_option
                 (\<lambda>n. n + length (filter (\<lambda>r'. target_key r' = target_key (rels ! j)) (take j rels)))
                 (idx' (target_key (rels ! j)))
             = map_option
                 (\<lambda>n. n + length (filter (\<lambda>r'. target_key r' = target_key (rels ! j))
                                     (take k (r # rels))))
                 (idx (target_key (rels ! j)))"
      by (cases "idx (target_key (rels ! j))") (auto simp: idx'_def Suc)
    show ?thesis
      unfolding step Cons.IH [OF j, of idx'] cnt by (simp add: Suc)
  qed
qed

lemma dependency_edges_handle:
  "k < length deps \<Longrightarrow>
   e_targetHandle (dependency_edges P hid idx deps ! k)
     = Some (TARGET_DEP_PREFIX P
             @ index_string (map_option
                 (\<lambda>n. n + length (filter (\<lambda>d. d_tableId d = d_tableId (deps ! k)) (take k deps)))
                 (idx (d_tableId (deps ! k))))
             @ ''_'' @ d_tableId (deps ! k))"
proof (induction deps arbitrary: idx k)
  case Nil
  then show ?case by simp
next
  case (Cons r deps)
  show ?case
  proof (cases k)
    case 0
    then show ?thesis by (cases "idx (d_tableId r)") simp_all
  next
    case (Suc j)
    with Cons.prems have j: "j < length deps" by simp
    define idx' where "idx' = idx(d_tableId r := map_option Suc (idx (d_tableId r)))"
    have step: "dependency_edges P hid idx (r # deps) ! k = dependency_edges P hid idx' deps ! j"
      by (simp add: Suc idx'_def)
    have cnt: "map_option
                 (\<lambda>n. n + length (filter (\<lambda>d. d_tableId d = d_tableId (deps ! j)) (take j deps)))
                 (idx' (d_tableId (deps ! j)))
             = map_option
                 (\<lambda>n. n + length (filter (\<lambda>d. d_tableId d = d_tableId (deps ! j))
                                     (take k (r # deps))))
                 (idx (d_tableId (deps ! j)))"
      by (cases "idx (d_tableId (deps ! j))") (auto simp: idx'_def Suc)
    show ?thesis
      unfolding step Cons.IH [OF j, of idx'] cnt by (simp add: Suc)
  qed
qed

lemma fold_init_zero:
  "fold (\<lambda>x acc. object_set acc (key x) 0) xs m k
     = (if k \<in> key ` set xs \<and> k \<noteq> ''__proto__'' then Some 0 else m k)"
  by (induction xs arbitrary: m) (auto simp: object_set_def)

lemma targetIndexes_init_zero:
  "r \<in> set rels \<Longrightarrow> target_key r \<noteq> ''__proto__''
     \<Longrightarrow> targetIndexes_init rels (target_key r) = Some 0"
  by (simp add: targetIndexes_init_def fold_init_zero)

lemma targetDepIndexes_init_zero:
  "d \<in> set deps \<Longrightarrow> d_tableId d \<noteq> ''__proto__''
     \<Longrightarrow> targetDepIndexes_init deps (d_tableId d) = Some 0"
  by (simp add: targetDepIndexes_init_def fold_init_zero)

lemma targetIndexes_init_proto: "targetIndexes_init rels ''__proto__'' = None"
  by (simp add: targetIndexes_init_def fold_init_zero)

lemma targetDepIndexes_init_proto: "targetDepIndexes_init deps ''__proto__'' = None"
  by (simp add: targetDepIndexes_init_def fold_init_zero)

text \<open>
  What the projection does: the \<open>k\<close>-th relationship gets, as its index, the number of
  earlier relationships with the same concatenated key, and the \<open>k\<close>-th dependency the
  number of earlier dependencies with the same table id.
\<close>

lemma relationship_handle_index_by_key:
  assumes "k < length relationships" "target_key (relationships ! k) \<noteq> ''__proto__''"
  shows "e_targetHandle
           (edges_projection P showDeps databaseType CLICKHOUSE relationships dependencies ! k)
         = Some (TARGET_ID_PREFIX P
                 @ string_of_nat (length (filter (\<lambda>r. target_key r = target_key (relationships ! k))
                                            (take k relationships)))
                 @ ''_'' @ targetFieldId (relationships ! k))"
  using assms relationship_edges_handle [OF assms(1), of P "targetIndexes_init relationships"]
    targetIndexes_init_zero [of "relationships ! k" relationships]
  by (simp add: edges_projection_def nth_append)

lemma dependency_handle_index_by_table:
  assumes "k < length dependencies" "d_tableId (dependencies ! k) \<noteq> ''__proto__''"
  shows "e_targetHandle
           (edges_projection P showDeps databaseType CLICKHOUSE relationships dependencies
              ! (length relationships + k))
         = Some (TARGET_DEP_PREFIX P
                 @ string_of_nat (length (filter (\<lambda>d. d_tableId d = d_tableId (dependencies ! k))
                                            (take k dependencies)))
                 @ ''_'' @ d_tableId (dependencies ! k))"
  using assms dependency_edges_handle [OF assms(1), of P _ "targetDepIndexes_init dependencies"]
    targetDepIndexes_init_zero [of "dependencies ! k" dependencies]
  by (simp add: edges_projection_def nth_append)

text \<open>Ids of one length make the concatenated key stand for the pair.\<close>

lemma target_key_same_length:
  assumes "length (targetTableId r) = length (targetTableId r')"
  shows "target_key r = target_key r'
     \<longleftrightarrow> targetTableId r = targetTableId r' \<and> targetFieldId r = targetFieldId r'"
  using assms by (auto simp: target_key_def)

text \<open>
  Claim C3: the relationships that share one (targetTableId, targetFieldId) pair get the
  indices 0, 1, 2, ... in list order. The counters are keyed by the two ids joined with no
  separator, so the pairs (a, bc) and (ab, c) share the counter \<open>abc\<close>: the only
  relationship that targets (ab, c) gets index 1, not 0.
\<close>

theorem C3_key_collision:
  "map e_targetHandle
     (edges_projection sample_prefixes True () ()
        [sample_relationship ''r1'' ''a'' ''bc'', sample_relationship ''r2'' ''ab'' ''c''] [])
     = [Some ''target_rel_0_bc'', Some ''target_rel_1_c'']
   \<and> (''a'', ''bc'') \<noteq> (''ab'', ''c'')"
  by (simp add: edges_projection_def targetIndexes_init_def targetDepIndexes_init_def target_key_def
      object_set_def sample_relationship_def sample_prefixes_def string_of_nat_0 string_of_nat_1)

section \<open>Selection synchronizer: properties\<close>

lemma highlight_edges_length [simp]:
  "length (highlight_edges st selT selR edges) = length edges"
  by (simp add: highlight_edges_def Let_def)

lemma highlight_edges_nth:
  assumes "k < length edges"
  shows "highlight_edges st selT selR edges ! k =
     (edges ! k)\<lparr> e_data := Some ((data_or_empty (e_data (edges ! k)))
          \<lparr> ed_highlighted := Some (e_id (edges ! k) \<in> set selR
               \<or> (\<exists>s \<in> set st. e_id s = e_id (edges ! k)
                    \<and> (e_source s \<in> set selT \<or> e_target s \<in> set selT))) \<rparr>),
        e_animated := Some (e_id (edges ! k) \<in> set selR
               \<or> (\<exists>s \<in> set st. e_id s = e_id (edges ! k)
                    \<and> (e_source s \<in> set selT \<or> e_target s \<in> set selT))),
        e_zIndex := Some (if (e_id (edges ! k) \<in> set selR
               \<or> (\<exists>s \<in> set st. e_id s = e_id (edges ! k)
                    \<and> (e_source s \<in> set selT \<or> e_target s \<in> set selT))) then 1 else 0) \<rparr>"
proof -
  have m: "e_id (edges ! k) \<in> set (map e_id (filter (\<lambda>edge. e_source edge \<in> set selT
                                       \<or> e_target edge \<in> set selT) st) @ selR)
     \<longleftrightarrow> (e_id (edges ! k) \<in> set selR
               \<or> (\<exists>s \<in> set st. e_id s = e_id (edges ! k)
                    \<and> (e_source s \<in> set selT \<or> e_target s \<in> set selT)))"
  proof -
    have "e_id (edges ! k) \<in> e_id ` {x \<in> set st. e_source x \<in> set selT \<or> e_target x \<in> set selT}
       \<longleftrightarrow> (\<exists>s \<in> set st. e_id s = e_id (edges ! k)
                    \<and> (e_source s \<in> set selT \<or> e_target s \<in> set selT))"
      unfolding image_iff by (intro iffI; elim bexE; force)
    then show ?thesis by auto
  qed
  show ?thesis
    using assms unfolding highlight_edges_def Let_def
    by (simp only: nth_map m if_cancel)
qed

lemma selectedEdgesIds_flag:
  assumes "distinct (map e_id edges)" "k < length edges"
  shows "e_id (edges ! k) \<in> set (selectedEdgesIds edges) \<longleftrightarrow> truthy (e_selected (edges ! k))"
proof
  assume "e_id (edges ! k) \<in> set (selectedEdgesIds edges)"
  then obtain e where e: "e \<in> set edges" "truthy (e_selected e)" "e_id e = e_id (edges ! k)"
    by (auto simp: selectedEdgesIds_def)
  then obtain j where j: "j < length edges" "edges ! j = e" by (auto simp: in_set_conv_nth)
  with assms e have "j = k"
    by (metis distinct_conv_nth length_map nth_map)
  with j e show "truthy (e_selected (edges ! k))" by simp
next
  assume "truthy (e_selected (edges ! k))"
  with assms(2) show "e_id (edges ! k) \<in> set (selectedEdgesIds edges)"
    by (auto simp: selectedEdgesIds_def)
qed

lemma selectedNodesIds_iff:
  "i \<in> set (selectedNodesIds nodes) \<longleftrightarrow> (\<exists>n \<in> set nodes. truthy (n_selected n) \<and> n_id n = i)"
  by (auto simp: selectedNodesIds_def)

lemma selectedEdgesIds_iff:
  "i \<in> set (selectedEdgesIds edges) \<longleftrightarrow> (\<exists>e \<in> set edges. truthy (e_selected e) \<and> e_id e = i)"
  by (auto simp: selectedEdgesIds_def)

text \<open>
  Claim C7, as stated, fails: the edges with a selected endpoint are looked up in what
  \<open>getEdges()\<close> returns, not in the edges the pass rewrites. With table \<open>t1\<close> selected and an
  edge from \<open>t1\<close> that the rendering surface does not hold yet, the edge is not highlighted.
\<close>

theorem C7_counterexample:
  "selectedNodesIds [idle_selected_node] = [''t1'']
   \<and> e_source sample_edge = ''t1''
   \<and> \<not> edge_highlighted
         (highlight_edges [] (selectedNodesIds [idle_selected_node])
            (selectedEdgesIds [sample_edge]) [sample_edge] ! 0)"
  by (simp add: selectedNodesIds_def selectedEdgesIds_def idle_selected_node_def
      tableToTableNode_def table_at_def sample_edge_def highlight_edges_def edge_highlighted_def
      data_or_empty_def Let_def)

text \<open>
  Claim C7, amended: after the highlight pass, run with the selected table ids and the
  selected edge ids that the two synchronizing effects derive from the selected flags of
  the nodes and of the edges, every edge E is highlighted if and only if some edge of E's
  id has its selected flag set, or \<open>getEdges()\<close> holds an edge of E's id one of whose
  endpoints is the id of a node whose selected flag is set. When edge ids are unique and
  \<open>getEdges()\<close> holds E's id with E's endpoints, that is: if and only if E's selected flag is
  set or one of its endpoint nodes is selected. Every edge is animated exactly when it is
  highlighted, and its zIndex is 1 when highlighted and 0 when not.
\<close>

theorem C7_highlight:
  assumes k: "k < length edges"
  shows
    "(edge_highlighted (highlight_edges storeEdges selT selR edges ! k)
        \<longleftrightarrow> e_id (edges ! k) \<in> set selR
            \<or> (\<exists>s \<in> set storeEdges. e_id s = e_id (edges ! k)
                  \<and> (e_source s \<in> set selT \<or> e_target s \<in> set selT)))
     \<and> (edge_highlighted
          (highlight_edges storeEdges (selectedNodesIds nodes) (selectedEdgesIds edges) edges ! k)
        \<longleftrightarrow> (\<exists>e \<in> set edges. truthy (e_selected e) \<and> e_id e = e_id (edges ! k))
            \<or> (\<exists>s \<in> set storeEdges. e_id s = e_id (edges ! k)
                  \<and> (\<exists>n \<in> set nodes. truthy (n_selected n)
                        \<and> (n_id n = e_source s \<or> n_id n = e_target s))))
     \<and> (distinct (map e_id edges)
          \<and> (\<exists>s \<in> set storeEdges. e_id s = e_id (edges ! k))
          \<and> (\<forall>s \<in> set storeEdges. e_id s = e_id (edges ! k) \<longrightarrow>
                e_source s = e_source (edges ! k) \<and> e_target s = e_target (edges ! k))
        \<longrightarrow> (edge_highlighted
               (highlight_edges storeEdges (selectedNodesIds nodes) (selectedEdgesIds edges) edges ! k)
             \<longleftrightarrow> truthy (e_selected (edges ! k))
                 \<or> (\<exists>n \<in> set nodes. truthy (n_selected n)
                       \<and> (n_id n = e_source (edges ! k) \<or> n_id n = e_target (edges ! k)))))
     \<and> e_animated (highlight_edges storeEdges selT selR edges ! k)
         = Some (edge_highlighted (highlight_edges storeEdges selT selR edges ! k))
     \<and> e_zIndex (highlight_edges storeEdges selT selR edges ! k)
         = Some (if edge_highlighted (highlight_edges storeEdges selT selR edges ! k) then 1 else 0)
     \<and> e_id (highlight_edges storeEdges selT selR edges ! k) = e_id (edges ! k)
     \<and> length (highlight_edges storeEdges selT selR edges) = length edges"
proof -
  have hl: "edge_highlighted (highlight_edges storeEdges sT sR edges ! k)
     \<longleftrightarrow> e_id (edges ! k) \<in> set sR
            \<or> (\<exists>s \<in> set storeEdges. e_id s = e_id (edges ! k)
                  \<and> (e_source s \<in> set sT \<or> e_target s \<in> set sT))" for sT sR
    by (simp add: highlight_edges_nth [OF k] edge_highlighted_def)
  have fl: "edge_highlighted
          (highlight_edges storeEdges (selectedNodesIds nodes) (selectedEdgesIds edges) edges ! k)
        \<longleftrightarrow> (\<exists>e \<in> set edges. truthy (e_selected e) \<and> e_id e = e_id (edges ! k))
            \<or> (\<exists>s \<in> set storeEdges. e_id s = e_id (edges ! k)
                  \<and> (\<exists>n \<in> set nodes. truthy (n_selected n)
                        \<and> (n_id n = e_source s \<or> n_id n = e_target s)))"
    unfolding hl selectedNodesIds_iff selectedEdgesIds_iff by blast
  have un: "edge_highlighted
               (highlight_edges storeEdges (selectedNodesIds nodes) (selectedEdgesIds edges) edges ! k)
             \<longleftrightarrow> truthy (e_selected (edges ! k))
                 \<or> (\<exists>n \<in> set nodes. truthy (n_selected n)
                       \<and> (n_id n = e_source (edges ! k) \<or> n_id n = e_target (edges ! k)))"
    if d: "distinct (map e_id edges)"
      and present: "\<exists>s \<in> set storeEdges. e_id s = e_id (edges ! k)"
      and same: "\<forall>s \<in> set storeEdges. e_id s = e_id (edges ! k) \<longrightarrow>
                e_source s = e_source (edges ! k) \<and> e_target s = e_target (edges ! k)"
  proof -
    have a: "(\<exists>s \<in> set storeEdges. e_id s = e_id (edges ! k)
                  \<and> (e_source s \<in> set (selectedNodesIds nodes)
                       \<or> e_target s \<in> set (selectedNodesIds nodes)))
          \<longleftrightarrow> (e_source (edges ! k) \<in> set (selectedNodesIds nodes)
                  \<or> e_target (edges ! k) \<in> set (selectedNodesIds nodes))"
      using present same by auto
    have "edge_highlighted
               (highlight_edges storeEdges (selectedNodesIds nodes) (selectedEdgesIds edges) edges ! k)
          \<longleftrightarrow> e_id (edges ! k) \<in> set (selectedEdgesIds edges)
              \<or> (\<exists>s \<in> set storeEdges. e_id s = e_id (edges ! k)
                    \<and> (e_source s \<in> set (selectedNodesIds nodes)
                         \<or> e_target s \<in> set (selectedNodesIds nodes)))"
      by (rule hl)
    also have "\<dots> \<longleftrightarrow> truthy (e_selected (edges ! k))
              \<or> (e_source (edges ! k) \<in> set (selectedNodesIds nodes)
                  \<or> e_target (edges ! k) \<in> set (selectedNodesIds nodes))"
      by (simp only: a selectedEdgesIds_flag [OF d k])
    also have "\<dots> \<longleftrightarrow> truthy (e_selected (edges ! k))
                 \<or> (\<exists>n \<in> set nodes. truthy (n_selected n)
                       \<and> (n_id n = e_source (edges ! k) \<or> n_id n = e_target (edges ! k)))"
      unfolding selectedNodesIds_iff by blast
    finally show ?thesis .
  qed
  have un': "distinct (map e_id edges)
          \<and> (\<exists>s \<in> set storeEdges. e_id s = e_id (edges ! k))
          \<and> (\<forall>s \<in> set storeEdges. e_id s = e_id (edges ! k) \<longrightarrow>
                e_source s = e_source (edges ! k) \<and> e_target s = e_target (edges ! k))
        \<longrightarrow> (edge_highlighted
               (highlight_edges storeEdges (selectedNodesIds nodes) (selectedEdgesIds edges) edges ! k)
             \<longleftrightarrow> truthy (e_selected (edges ! k))
                 \<or> (\<exists>n \<in> set nodes. truthy (n_selected n)
                       \<and> (n_id n = e_source (edges ! k) \<or> n_id n = e_target (edges ! k))))"
  proof (intro impI)
    assume h: "distinct (map e_id edges)
          \<and> (\<exists>s \<in> set storeEdges. e_id s = e_id (edges ! k))
          \<and> (\<forall>s \<in> set storeEdges. e_id s = e_id (edges ! k) \<longrightarrow>
                e_source s = e_source (edges ! k) \<and> e_target s = e_target (edges ! k))"
    show "edge_highlighted
               (highlight_edges storeEdges (selectedNodesIds nodes) (selectedEdgesIds edges) edges ! k)
             \<longleftrightarrow> truthy (e_selected (edges ! k))
                 \<or> (\<exists>n \<in> set nodes. truthy (n_selected n)
                       \<and> (n_id n = e_source (edges ! k) \<or> n_id n = e_target (edges ! k)))"
      by (rule un [OF h [THEN conjunct1] h [THEN conjunct2, THEN conjunct1]
            h [THEN conjunct2, THEN conjunct2]])
  qed
  have an: "e_animated (highlight_edges storeEdges selT selR edges ! k)
         = Some (edge_highlighted (highlight_edges storeEdges selT selR edges ! k))"
    by (simp add: highlight_edges_nth [OF k] edge_highlighted_def)
  have z: "e_zIndex (highlight_edges storeEdges selT selR edges ! k)
         = Some (if edge_highlighted (highlight_edges storeEdges selT selR edges ! k) then 1 else 0)"
    by (simp add: highlight_edges_nth [OF k] edge_highlighted_def)
  have i: "e_id (highlight_edges storeEdges selT selR edges ! k) = e_id (edges ! k)"
    by (simp add: highlight_edges_nth [OF k])
  have len: "length (highlight_edges storeEdges selT selR edges) = length edges"
    by simp
  show ?thesis
    using hl [of selT selR] fl un' an z i len by (intro conjI)
qed

theorem C7_highlight_witness:
  "0 < length [sample_edge]
   \<and> distinct (map e_id [sample_edge])
   \<and> (\<exists>s \<in> set [sample_edge]. e_id s = e_id ([sample_edge] ! 0))
   \<and> \<not> truthy (e_selected ([sample_edge] ! 0))
   \<and> truthy (n_selected idle_selected_node)
   \<and> n_id idle_selected_node = e_source ([sample_edge] ! 0)
   \<and> edge_highlighted
        (highlight_edges [sample_edge] (selectedNodesIds [idle_selected_node])
           (selectedEdgesIds [sample_edge]) [sample_edge] ! 0)
   \<and> \<not> edge_highlighted
        (highlight_edges [sample_edge] (selectedNodesIds [dragging_node])
           (selectedEdgesIds [sample_edge]) [sample_edge] ! 0)
   \<and> e_animated (highlight_edges [sample_edge] [''t1''] [] [sample_edge] ! 0) = Some True
   \<and> e_zIndex (highlight_edges [sample_edge] [''t1''] [] [sample_edge] ! 0) = Some 1
   \<and> e_zIndex (highlight_edges [sample_edge] [''t9''] [] [sample_edge] ! 0) = Some 0"
proof -
  have k: "0 < length [sample_edge]" by simp
  have d: "distinct (map e_id [sample_edge])" by simp
  have present: "\<exists>s \<in> set [sample_edge]. e_id s = e_id ([sample_edge] ! 0)" by simp
  have same: "\<forall>s \<in> set [sample_edge]. e_id s = e_id ([sample_edge] ! 0) \<longrightarrow>
                 e_source s = e_source ([sample_edge] ! 0) \<and> e_target s = e_target ([sample_edge] ! 0)"
    by simp
  have nsel: "\<not> truthy (e_selected ([sample_edge] ! 0))"
    and sel: "truthy (n_selected idle_selected_node)"
    and src: "n_id idle_selected_node = e_source ([sample_edge] ! 0)"
    and unsel: "\<not> truthy (n_selected dragging_node)"
    and ids: "e_id ([sample_edge] ! 0) \<notin> set []"
      "e_source ([sample_edge] ! 0) \<in> set [''t1'']"
      "e_source ([sample_edge] ! 0) \<notin> set [''t9'']" "e_target ([sample_edge] ! 0) \<notin> set [''t9'']"
    by (simp_all add: sample_edge_def idle_selected_node_def dragging_node_def
        tableToTableNode_def table_at_def)
  note t1 = C7_highlight [OF k, of "[sample_edge]" "[''t1'']" "[]" "[idle_selected_node]"]
  note t2 = C7_highlight [OF k, of "[sample_edge]" "[''t9'']" "[]" "[dragging_node]"]
  note pre = conjI [OF d conjI [OF present same]]
  note r1 = mp [OF t1 [THEN conjunct2, THEN conjunct2, THEN conjunct1] pre]
  note r2 = mp [OF t2 [THEN conjunct2, THEN conjunct2, THEN conjunct1] pre]
  have n1: "\<exists>n \<in> set [idle_selected_node]. truthy (n_selected n)
              \<and> (n_id n = e_source ([sample_edge] ! 0) \<or> n_id n = e_target ([sample_edge] ! 0))"
    using sel src by simp
  have n2: "\<not> (\<exists>n \<in> set [dragging_node]. truthy (n_selected n)
              \<and> (n_id n = e_source ([sample_edge] ! 0) \<or> n_id n = e_target ([sample_edge] ! 0)))"
    using unsel by simp
  have h1: "edge_highlighted
        (highlight_edges [sample_edge] (selectedNodesIds [idle_selected_node])
           (selectedEdgesIds [sample_edge]) [sample_edge] ! 0)"
    using r1 n1 by blast
  have h2: "\<not> edge_highlighted
        (highlight_edges [sample_edge] (selectedNodesIds [dragging_node])
           (selectedEdgesIds [sample_edge]) [sample_edge] ! 0)"
    using r2 n2 nsel by blast
  have s1: "\<exists>s \<in> set [sample_edge]. e_id s = e_id ([sample_edge] ! 0)
              \<and> (e_source s \<in> set [''t1''] \<or> e_target s \<in> set [''t1''])"
    using ids(2) by simp
  have s9: "\<not> (e_id ([sample_edge] ! 0) \<in> set []
              \<or> (\<exists>s \<in> set [sample_edge]. e_id s = e_id ([sample_edge] ! 0)
                    \<and> (e_source s \<in> set [''t9''] \<or> e_target s \<in> set [''t9''])))"
    using ids(3,4) by simp
  have g1: "edge_highlighted (highlight_edges [sample_edge] [''t1''] [] [sample_edge] ! 0)"
    using t1 [THEN conjunct1] s1 by blast
  have g9: "\<not> edge_highlighted (highlight_edges [sample_edge] [''t9''] [] [sample_edge] ! 0)"
    using t2 [THEN conjunct1] s9 by blast
  have a1: "e_animated (highlight_edges [sample_edge] [''t1''] [] [sample_edge] ! 0) = Some True"
    using t1 [THEN conjunct2, THEN conjunct2, THEN conjunct2, THEN conjunct1] g1 by simp
  have z1: "e_zIndex (highlight_edges [sample_edge] [''t1''] [] [sample_edge] ! 0) = Some 1"
    using t1 [THEN conjunct2, THEN conjunct2, THEN conjunct2, THEN conjunct2, THEN conjunct1] g1
    by simp
  have z9: "e_zIndex (highlight_edges [sample_edge] [''t9''] [] [sample_edge] ! 0) = Some 0"
    using t2 [THEN conjunct2, THEN conjunct2, THEN conjunct2, THEN conjunct2, THEN conjunct1] g9
    by simp
  show ?thesis
    using k d present nsel sel src h1 h2 a1 z1 z9 by (intro conjI)
qed

section \<open>Re-projection of nodes: properties\<close>

text \<open>
  Claim C6, as stated, fails: the position and the selected flag of the prior node are
  carried over also when the node is neither dragged nor resized. A prior node at (5, 5),
  selected and idle, keeps its position and its flag against the table's (100, 200).
\<close>

theorem C6_counterexample:
  "\<not> truthy (n_dragging idle_selected_node) \<and> \<not> truthy (n_resizing idle_selected_node)
   \<and> n_position (reproject_table (Fin 224) show_every_table no_overlaps False [idle_selected_node]
        (table_at (Some (Fin 100)) (Some (Fin 200))))
       = Some \<lparr> pos_x = Some (Fin 5), pos_y = Some (Fin 5) \<rparr>
   \<and> n_position (tableToTableNode (Fin 224) show_every_table
        (table_at (Some (Fin 100)) (Some (Fin 200))))
       = Some \<lparr> pos_x = Some (Fin 100), pos_y = Some (Fin 200) \<rparr>
   \<and> n_selected (reproject_table (Fin 224) show_every_table no_overlaps False [idle_selected_node]
        (table_at (Some (Fin 100)) (Some (Fin 200)))) = Some True
   \<and> n_selected (tableToTableNode (Fin 224) show_every_table
        (table_at (Some (Fin 100)) (Some (Fin 200)))) = None"
  by (simp add: reproject_table_def merge_existing_def position_is_valid_def
      idle_selected_node_def tableToTableNode_def table_at_def no_overlaps_def Let_def)

text \<open>
  Claim C6, amended: for a table with a prior visual node, the re-projection takes the
  position of the prior node whenever both its coordinates are numbers other than NaN
  (the domain-derived position otherwise), and always takes the prior node's selected flag,
  whether or not an interaction is active; the measured dimensions are carried over only
  while the prior node is dragged or resized and are left unset otherwise; the dragging and
  the resizing flag are set exactly when set on the prior node.
\<close>

theorem C6_merge_on_read:
  assumes "find (\<lambda>n. n_id n = t_id table) currentNodes = Some ex"
  shows
    "n_position (reproject_table M shouldShow graph hl currentNodes table)
       = (if position_is_valid ex then n_position ex
          else n_position (tableToTableNode M shouldShow table))
     \<and> n_measured (reproject_table M shouldShow graph hl currentNodes table)
       = (if truthy (n_dragging ex) \<or> truthy (n_resizing ex) then n_measured ex else None)
     \<and> n_selected (reproject_table M shouldShow graph hl currentNodes table) = n_selected ex
     \<and> n_dragging (reproject_table M shouldShow graph hl currentNodes table)
       = (if truthy (n_dragging ex) then Some True else None)
     \<and> n_resizing (reproject_table M shouldShow graph hl currentNodes table)
       = (if truthy (n_resizing ex) then Some True else None)"
  using assms
  by (simp add: reproject_table_def merge_existing_def Let_def tableToTableNode_def)

theorem C6_merge_on_read_witness:
  "find (\<lambda>n. n_id n = t_id (table_at (Some (Fin 100)) (Some NaN))) [dragging_node]
     = Some dragging_node
   \<and> n_position (reproject_table (Fin 224) show_every_table no_overlaps False [dragging_node]
        (table_at (Some (Fin 100)) (Some NaN)))
       = Some \<lparr> pos_x = Some (Fin 5), pos_y = Some (Fin 5) \<rparr>
   \<and> n_measured (reproject_table (Fin 224) show_every_table no_overlaps False [dragging_node]
        (table_at (Some (Fin 100)) (Some NaN)))
       = Some \<lparr> dim_width = Some (Fin 224), dim_height = Some (Fin 90) \<rparr>
   \<and> n_dragging (reproject_table (Fin 224) show_every_table no_overlaps False [dragging_node]
        (table_at (Some (Fin 100)) (Some NaN))) = Some True
   \<and> n_resizing (reproject_table (Fin 224) show_every_table no_overlaps False [dragging_node]
        (table_at (Some (Fin 100)) (Some NaN))) = None"
proof -
  have f: "find (\<lambda>n. n_id n = t_id (table_at (Some (Fin 100)) (Some NaN))) [dragging_node]
     = Some dragging_node"
    by (simp add: dragging_node_def table_at_def tableToTableNode_def)
  have v: "position_is_valid dragging_node"
    and p: "n_position dragging_node = Some \<lparr> pos_x = Some (Fin 5), pos_y = Some (Fin 5) \<rparr>"
    and m: "n_measured dragging_node
              = Some \<lparr> dim_width = Some (Fin 224), dim_height = Some (Fin 90) \<rparr>"
    and d: "truthy (n_dragging dragging_node)" "\<not> truthy (n_resizing dragging_node)"
    by (simp_all add: dragging_node_def table_at_def tableToTableNode_def position_is_valid_def)
  show ?thesis
    using f C6_merge_on_read [OF f, of "Fin 224" show_every_table no_overlaps False]
    by (simp add: v p m d)
qed

end
